theory Spec2Isabelle
  imports Main "HOL-Library.Word" "HOL-Library.Char_ord" "HOL-Library.List_Lexorder"
    "HOL-Library.AList"
begin

unbundle bit_operations_syntax

section \<open>Strings: the Python string operations the sources use\<close>

text \<open>
  Python \<open>str\<close> values are modelled as \<open>string\<close>; the model covers ASCII text, where
  a character is one byte. \<open>is_space\<close> is \<open>str.isspace\<close> on ASCII (also the class
  \<open>\s\<close> of \<open>re\<close>): tab, line feed, vertical tab, form feed, carriage return, the four
  separators \<open>0x1c\<close> to \<open>0x1f\<close>, and the space.
\<close>

definition is_space :: "char \<Rightarrow> bool" where
  "is_space c \<longleftrightarrow> c \<in> set [CHR 0x09, CHR 0x0A, CHR 0x0B, CHR 0x0C, CHR 0x0D,
                              CHR 0x1C, CHR 0x1D, CHR 0x1E, CHR 0x1F, CHR '' '']"

definition is_upper :: "char \<Rightarrow> bool" where
  "is_upper c \<longleftrightarrow> c \<in> set ''ABCDEFGHIJKLMNOPQRSTUVWXYZ''"

definition is_lower :: "char \<Rightarrow> bool" where
  "is_lower c \<longleftrightarrow> c \<in> set ''abcdefghijklmnopqrstuvwxyz''"

definition is_digit :: "char \<Rightarrow> bool" where
  "is_digit c \<longleftrightarrow> c \<in> set ''0123456789''"

text \<open>\<open>str.strip()\<close>: whitespace removed at both ends.\<close>

definition strip :: "string \<Rightarrow> string" where
  "strip s = rev (dropWhile is_space (rev (dropWhile is_space s)))"

text \<open>\<open>str.lower()\<close> on ASCII.\<close>

definition lower_char :: "char \<Rightarrow> char" where
  "lower_char c =
     (case map_of (zip ''ABCDEFGHIJKLMNOPQRSTUVWXYZ'' ''abcdefghijklmnopqrstuvwxyz'') c of
        Some d \<Rightarrow> d
      | None \<Rightarrow> c)"

definition lower :: "string \<Rightarrow> string" where
  "lower s = map lower_char s"

text \<open>\<open>s.replace(old, new)\<close> for a one-character \<open>old\<close>.\<close>

definition replace :: "char \<Rightarrow> string \<Rightarrow> string \<Rightarrow> string" where
  "replace old new s = concat (map (\<lambda>c. if c = old then new else [c]) s)"

text \<open>
  \<open>s.split(sep)\<close> for a one-character separator: every occurrence cuts, so the
  result has one more element than there are separators (\<open>"".split(",") == [""]\<close>).
  \<open>cur\<close> holds the current piece, reversed.
\<close>

fun split_acc :: "char \<Rightarrow> string \<Rightarrow> string \<Rightarrow> string list" where
  "split_acc sep cur [] = [rev cur]"
| "split_acc sep cur (c # cs) =
     (if c = sep then rev cur # split_acc sep [] cs else split_acc sep (c # cur) cs)"

definition split :: "char \<Rightarrow> string \<Rightarrow> string list" where
  "split sep s = split_acc sep [] s"

text \<open>\<open>s.startswith(p)\<close>.\<close>

definition startswith :: "string \<Rightarrow> string \<Rightarrow> bool" where
  "startswith s p \<longleftrightarrow> take (length p) s = p"

text \<open>\<open>int(s)\<close> for a string of decimal digits.\<close>

definition digit_value :: "char \<Rightarrow> int" where
  "digit_value c = (case map_of (zip ''0123456789'' [0, 1, 2, 3, 4, 5, 6, 7, 8, 9]) c of
                      Some d \<Rightarrow> d
                    | None \<Rightarrow> 0)"

definition int_of_digits :: "string \<Rightarrow> int" where
  "int_of_digits s = foldl (\<lambda>n c. 10 * n + digit_value c) 0 s"

section \<open>utils.py: genre tags\<close>

text \<open>
  \<^verbatim>\<open>
  def format_genre(genre: str) -> str:
      if genre == "Folk, World, & Country":
          return ""
      formatted = genre.strip().lower().replace(".", "").replace(" ", ".")
      return formatted
  \<close>
\<close>

definition format_genre :: "string \<Rightarrow> string" where
  "format_genre genre =
     (if genre = ''Folk, World, & Country'' then ''''
      else replace CHR '' '' ''.'' (replace CHR ''.'' '''' (lower (strip genre))))"

text \<open>
  \<^verbatim>\<open>
  def parse_genres(genres: str) -> tuple[str]:
      potential_separators = "|,/"
      for separator in potential_separators:
          if separator in genres:
              break
      else:
          separator = None
      if separator:
          genres = genres.split(separator)
      else:
          genres = [genres]
      return tuple(map(format_genre, genres))
  \<close>
  The \<open>for\<close>/\<open>else\<close> finds the first of the three separators that occurs in the field.
\<close>

definition find_separator :: "string \<Rightarrow> char option" where
  "find_separator genres = List.find (\<lambda>separator. separator \<in> set genres) ''|,/''"

definition parse_genres :: "string \<Rightarrow> string list" where
  "parse_genres genres =
     map format_genre
       (case find_separator genres of
          Some separator \<Rightarrow> split separator genres
        | None \<Rightarrow> [genres])"

section \<open>swarmchaser.py: release names\<close>

text \<open>
  \<^verbatim>\<open>
  match = re.match(
      r"\((?P<genre>[A-Za-z\s,.-]*)\) \[(?P<format>[A-Z]*)\] (?P<artist>.*) - (?P<album>.*) - (?P<year>\d{4}), ",
      releasename)
  \<close>
  \<open>re.match\<close> anchors the pattern at the start of the title only. The pattern is a
  sequence of literals, greedy starred classes in named groups, and one group of exactly
  four digits. Each piece is a matcher that takes the rest of the pattern as a
  continuation, so that a greedy star gives characters back when the rest fails, as the
  backtracking matcher of \<open>re\<close> does.
\<close>

definition lit :: "string \<Rightarrow> (string \<Rightarrow> 'a option) \<Rightarrow> string \<Rightarrow> 'a option" where
  "lit l k s = (if startswith s l then k (drop (length l) s) else None)"

text \<open>
  \<open>greedy P k acc s\<close>: a class \<open>P\<close> under a greedy star; \<open>acc\<close> is what the star holds so
  far (reversed). The longest run is tried first, and shorter ones as long as the
  continuation fails.
\<close>

fun greedy :: "(char \<Rightarrow> bool) \<Rightarrow> (string \<Rightarrow> string \<Rightarrow> 'a option) \<Rightarrow> string \<Rightarrow> string \<Rightarrow> 'a option" where
  "greedy P k acc [] = k (rev acc) []"
| "greedy P k acc (c # cs) =
     (if P c then
        (case greedy P k (c # acc) cs of
           Some r \<Rightarrow> Some r
         | None \<Rightarrow> k (rev acc) (c # cs))
      else k (rev acc) (c # cs))"

definition star :: "(char \<Rightarrow> bool) \<Rightarrow> (string \<Rightarrow> string \<Rightarrow> 'a option) \<Rightarrow> string \<Rightarrow> 'a option" where
  "star P k s = greedy P k [] s"

text \<open>\<open>\d{4}\<close>: exactly four characters of the class.\<close>

definition exactly :: "nat \<Rightarrow> (char \<Rightarrow> bool) \<Rightarrow> (string \<Rightarrow> string \<Rightarrow> 'a option) \<Rightarrow> string \<Rightarrow> 'a option" where
  "exactly n P k s =
     (if n \<le> length s \<and> list_all P (take n s) then k (take n s) (drop n s) else None)"

definition genre_class :: "char \<Rightarrow> bool" where
  "genre_class c \<longleftrightarrow> is_upper c \<or> is_lower c \<or> is_space c \<or> c \<in> set '',.-''"

text \<open>\<open>.\<close> matches every character but the line feed.\<close>

definition dot :: "char \<Rightarrow> bool" where
  "dot c \<longleftrightarrow> c \<noteq> CHR 0x0A"

datatype ReleaseName = ReleaseName string string int "string list"

text \<open>
  \<^verbatim>\<open>
  if match is None:
      return None
  matches = match.groupdict()
  artist = matches["artist"]
  album = matches["album"]
  year = int(matches["year"])
  genres = parse_genres(matches["genre"])
  return ReleaseName(artist, album, year, genres)
  \<close>
\<close>

definition parse_releasename :: "string \<Rightarrow> ReleaseName option" where
  "parse_releasename releasename =
     lit ''('' (star genre_class (\<lambda>genre.
     lit '') ['' (star is_upper (\<lambda>format.
     lit ''] '' (star dot (\<lambda>artist.
     lit '' - '' (star dot (\<lambda>album.
     lit '' - '' (exactly 4 is_digit (\<lambda>year.
     lit '', '' (\<lambda>rest.
       Some (ReleaseName artist album (int_of_digits year) (parse_genres genre)))))))))))))
     releasename"

section \<open>Bencode values and Python dictionaries\<close>

text \<open>
  The value model of the codec: integers, byte strings, lists and dictionaries. Byte
  strings are \<open>string\<close> (one \<open>char\<close> per byte). A Python \<open>dict\<close> keeps its keys in
  insertion order and holds each key once, so a dictionary is an association list in
  insertion order; its iteration order is the order of the list.
\<close>

datatype bvalue =
    BInt int
  | BStr string
  | BList "bvalue list"
  | BDict "(string \<times> bvalue) list"

datatype error =
    DecodeError
  | KeyError string
  | TypeError
  | AttributeError
  | AssertionError
  | JackettException
  | OutOfFuel

text \<open>\<open>d[key] = value\<close>: an existing key keeps its place, a new key goes to the end.\<close>

definition setitem :: "('k \<times> 'v) list \<Rightarrow> 'k \<Rightarrow> 'v \<Rightarrow> ('k \<times> 'v) list" where
  "setitem d key v = AList.update key v d"

text \<open>\<open>d[key]\<close> on a dictionary: \<open>KeyError\<close> when the key is missing.\<close>

definition getitem :: "(string \<times> 'v) list \<Rightarrow> string \<Rightarrow> error + 'v" where
  "getitem d key = (case map_of d key of None \<Rightarrow> Inl (KeyError key) | Some v \<Rightarrow> Inr v)"

text \<open>
  \<open>value[key]\<close> with a string key on a decoded value: only a dictionary can be
  subscripted by a string; a list, a string or an integer raises \<open>TypeError\<close>.
\<close>

fun subscript :: "bvalue \<Rightarrow> string \<Rightarrow> error + bvalue" where
  "subscript (BDict d) key = getitem d key"
| "subscript _ key = Inl TypeError"

text \<open>\<open>list(d.keys())\<close>.\<close>

definition keys :: "('k \<times> 'v) list \<Rightarrow> 'k list" where
  "keys d = map fst d"

section \<open>Decimal numerals\<close>

text \<open>\<open>str(n)\<close> for an integer: what an f-string and the codec write.\<close>

definition digit_char :: "int \<Rightarrow> char" where
  "digit_char d = ''0123456789'' ! nat (d mod 10)"

function show_digits :: "int \<Rightarrow> string" where
  "show_digits i =
     (if i < 10 then [digit_char i] else show_digits (i div 10) @ [digit_char i])"
  by pat_completeness auto
termination
  by (relation "measure nat") auto

declare show_digits.simps [simp del]

definition show_int :: "int \<Rightarrow> string" where
  "show_int i = (if i < 0 then ''-'' @ show_digits (- i) else show_digits i)"

definition show_nat :: "nat \<Rightarrow> string" where
  "show_nat n = show_digits (int n)"

section \<open>The bencode codec\<close>

text \<open>
  Modelled from the spec: the codec is the library \<open>pyben\<close> (\<open>pyben.bendecode\<close>,
  \<open>pyben.benencode\<close>), which the sources import and whose code is not part of them.
  The spec (4.1 and the glossary) gives the format: integers \<open>i<n>e\<close>, byte strings
  \<open><length>:<bytes>\<close>, lists \<open>l...e\<close>, dictionaries \<open>d...e\<close> of key and value pairs;
  \<open>decode\<close> parses one value from the front of the bytes and returns it with the number
  of bytes consumed, failing when a length prefix is not a number, when a list or
  dictionary is not terminated, or when something else stands where a value or a
  terminator was expected; \<open>encode\<close> writes a dictionary's keys in ascending byte order
  whatever the order of the map.
\<close>

text \<open>An integer body: an optional minus, digits, and the terminator \<open>e\<close>.\<close>

definition decode_int :: "string \<Rightarrow> error + (bvalue \<times> string)" where
  "decode_int bs =
     (let negative = startswith bs ''-'';
          body = (if negative then drop 1 bs else bs);
          digits = takeWhile is_digit body;
          rest = dropWhile is_digit body
      in if digits \<noteq> [] \<and> startswith rest ''e''
         then Inr (BInt (if negative then - int_of_digits digits else int_of_digits digits),
                   drop 1 rest)
         else Inl DecodeError)"

text \<open>A byte string: a decimal length, a colon, and that many bytes.\<close>

definition decode_str :: "string \<Rightarrow> error + (string \<times> string)" where
  "decode_str bs =
     (let digits = takeWhile is_digit bs;
          rest = dropWhile is_digit bs;
          n = nat (int_of_digits digits)
      in if digits \<noteq> [] \<and> startswith rest '':'' \<and> n \<le> length (drop 1 rest)
         then Inr (take n (drop 1 rest), drop n (drop 1 rest))
         else Inl DecodeError)"

text \<open>
  The recursive descent. Every call spends one unit of fuel; \<open>bendecode\<close> below gives
  enough for any input. \<open>decode_items\<close> reads the elements of a list up to its \<open>e\<close>.
  \<open>decode_pairs\<close> reads the keys and values of a dictionary into \<open>d\<close>, the dictionary
  built so far; a key must be a byte string, and a key that comes twice keeps its first
  place and gets its last value, as assignment to a \<open>dict\<close> does.
\<close>

fun decode_value :: "nat \<Rightarrow> string \<Rightarrow> error + (bvalue \<times> string)"
  and decode_items :: "nat \<Rightarrow> string \<Rightarrow> error + (bvalue list \<times> string)"
  and decode_pairs :: "nat \<Rightarrow> (string \<times> bvalue) list \<Rightarrow> string \<Rightarrow>
                         error + ((string \<times> bvalue) list \<times> string)" where
  "decode_value 0 bs = Inl OutOfFuel"
| "decode_value (Suc fuel) bs =
     (case bs of
        [] \<Rightarrow> Inl DecodeError
      | c # cs \<Rightarrow>
          if c = CHR ''i'' then decode_int cs
          else if c = CHR ''l'' then
            (case decode_items fuel cs of
               Inl e \<Rightarrow> Inl e
             | Inr (vs, rest) \<Rightarrow> Inr (BList vs, rest))
          else if c = CHR ''d'' then
            (case decode_pairs fuel [] cs of
               Inl e \<Rightarrow> Inl e
             | Inr (d, rest) \<Rightarrow> Inr (BDict d, rest))
          else if is_digit c then
            (case decode_str bs of
               Inl e \<Rightarrow> Inl e
             | Inr (s, rest) \<Rightarrow> Inr (BStr s, rest))
          else Inl DecodeError)"
| "decode_items 0 bs = Inl OutOfFuel"
| "decode_items (Suc fuel) bs =
     (case bs of
        [] \<Rightarrow> Inl DecodeError
      | c # cs \<Rightarrow>
          if c = CHR ''e'' then Inr ([], cs)
          else
            (case decode_value fuel bs of
               Inl e \<Rightarrow> Inl e
             | Inr (v, rest) \<Rightarrow>
                 (case decode_items fuel rest of
                    Inl e \<Rightarrow> Inl e
                  | Inr (vs, rest') \<Rightarrow> Inr (v # vs, rest'))))"
| "decode_pairs 0 d bs = Inl OutOfFuel"
| "decode_pairs (Suc fuel) d bs =
     (case bs of
        [] \<Rightarrow> Inl DecodeError
      | c # cs \<Rightarrow>
          if c = CHR ''e'' then Inr (d, cs)
          else
            (case decode_str bs of
               Inl e \<Rightarrow> Inl e
             | Inr (key, rest) \<Rightarrow>
                 (case decode_value fuel rest of
                    Inl e \<Rightarrow> Inl e
                  | Inr (v, rest') \<Rightarrow> decode_pairs fuel (setitem d key v) rest')))"

text \<open>\<open>bendecode(bytes)\<close>: the value and the number of bytes consumed.\<close>

definition bendecode :: "string \<Rightarrow> error + (bvalue \<times> nat)" where
  "bendecode bs =
     (case decode_value (2 * length bs + 1) bs of
        Inl e \<Rightarrow> Inl e
      | Inr (v, rest) \<Rightarrow> Inr (v, length bs - length rest))"

text \<open>
  \<open>benencode(value)\<close>. The entries of a dictionary are written in the ascending order
  of their keys.
\<close>

fun benencode :: "bvalue \<Rightarrow> string" where
  "benencode (BInt i) = ''i'' @ show_int i @ ''e''"
| "benencode (BStr s) = show_nat (length s) @ '':'' @ s"
| "benencode (BList vs) = ''l'' @ concat (map benencode vs) @ ''e''"
| "benencode (BDict d) =
     ''d'' @ concat (map (\<lambda>(key, v). show_nat (length key) @ '':'' @ key @ benencode v)
                      (sort_key fst d)) @ ''e''"

section \<open>SHA-1 and the infohash\<close>

text \<open>
  Modelled from the spec: \<open>hashlib.sha1\<close> is the interpreter's library, not part of the
  sources; the spec names the function (SHA-1). This is SHA-1 as FIPS 180-4 defines it,
  on 32-bit words: the message is padded with the byte \<open>0x80\<close>, zero bytes up to 56
  modulo 64, and its length in bits as 64 bits big-endian; each block of 64 bytes is
  expanded to 80 words and run through 80 rounds; the digest is the five state words,
  big-endian: 20 bytes.
\<close>

type_synonym u32 = "32 word"

definition rotl :: "nat \<Rightarrow> u32 \<Rightarrow> u32" where
  "rotl n w = push_bit n w OR drop_bit (32 - n) w"

definition be64 :: "64 word \<Rightarrow> string" where
  "be64 w = map (\<lambda>i. char_of (uint (drop_bit i w))) [56, 48, 40, 32, 24, 16, 8, 0]"

definition be32 :: "u32 \<Rightarrow> string" where
  "be32 w = map (\<lambda>i. char_of (uint (drop_bit i w))) [24, 16, 8, 0]"

definition sha1_pad :: "string \<Rightarrow> string" where
  "sha1_pad m =
     m @ [CHR 0x80] @ replicate ((119 - length m mod 64) mod 64) (CHR 0x00) @
     be64 (8 * of_nat (length m))"

definition word_of_bytes :: "string \<Rightarrow> u32" where
  "word_of_bytes bs = foldl (\<lambda>w c. push_bit 8 w OR of_char c) 0 bs"

fun chunks :: "nat \<Rightarrow> 'a list \<Rightarrow> 'a list list" where
  "chunks n xs = (if n = 0 \<or> xs = [] then [] else take n xs # chunks n (drop n xs))"

declare chunks.simps [simp del]

definition extend :: "u32 list \<Rightarrow> u32 list" where
  "extend w =
     (let t = length w
      in w @ [rotl 1 (w ! (t - 3) XOR w ! (t - 8) XOR w ! (t - 14) XOR w ! (t - 16))])"

definition schedule :: "string \<Rightarrow> u32 list" where
  "schedule block = (extend ^^ 64) (map word_of_bytes (chunks 4 block))"

definition f_t :: "nat \<Rightarrow> u32 \<Rightarrow> u32 \<Rightarrow> u32 \<Rightarrow> u32" where
  "f_t t b c d =
     (if t < 20 then (b AND c) OR (NOT b AND d)
      else if t < 40 then b XOR c XOR d
      else if t < 60 then (b AND c) OR (b AND d) OR (c AND d)
      else b XOR c XOR d)"

definition k_t :: "nat \<Rightarrow> u32" where
  "k_t t =
     (if t < 20 then 0x5A827999
      else if t < 40 then 0x6ED9EBA1
      else if t < 60 then 0x8F1BBCDC
      else 0xCA62C1D6)"

type_synonym sha1_state = "u32 \<times> u32 \<times> u32 \<times> u32 \<times> u32"

definition sha1_round :: "u32 list \<Rightarrow> nat \<Rightarrow> sha1_state \<Rightarrow> sha1_state" where
  "sha1_round w t s =
     (case s of (a, b, c, d, e) \<Rightarrow>
        (rotl 5 a + f_t t b c d + e + k_t t + w ! t, a, rotl 30 b, c, d))"

definition process_block :: "sha1_state \<Rightarrow> string \<Rightarrow> sha1_state" where
  "process_block h block =
     (case h of (h0, h1, h2, h3, h4) \<Rightarrow>
        (case fold (sha1_round (schedule block)) [0..<80] h of (a, b, c, d, e) \<Rightarrow>
           (h0 + a, h1 + b, h2 + c, h3 + d, h4 + e)))"

definition sha1 :: "string \<Rightarrow> string" where
  "sha1 m =
     (case foldl process_block
             (0x67452301, 0xEFCDAB89, 0x98BADCFE, 0x10325476, 0xC3D2E1F0)
             (chunks 64 (sha1_pad m)) of
        (h0, h1, h2, h3, h4) \<Rightarrow> concat (map be32 [h0, h1, h2, h3, h4]))"

text \<open>\<open>.hexdigest()\<close>: two lower-case hexadecimal digits for each byte of the digest.\<close>

definition hex_byte :: "char \<Rightarrow> string" where
  "hex_byte c =
     (let n = (of_char c :: nat)
      in [''0123456789abcdef'' ! (n div 16), ''0123456789abcdef'' ! (n mod 16)])"

definition hexdigest :: "string \<Rightarrow> string" where
  "hexdigest digest = concat (map hex_byte digest)"

text \<open>
  \<^verbatim>\<open>
  def infohash(torrent: bytes) -> str:
      torrent, _ = pyben.bendecode(torrent)
      return hashlib.sha1(pyben.benencode(torrent["info"])).hexdigest()
  \<close>
\<close>

definition infohash :: "string \<Rightarrow> error + string" where
  "infohash bytes =
     (case bendecode bytes of
        Inl e \<Rightarrow> Inl e
      | Inr (torrent, _) \<Rightarrow>
          (case subscript torrent ''info'' of
             Inl e \<Rightarrow> Inl e
           | Inr info \<Rightarrow> Inr (hexdigest (sha1 (benencode info)))))"

section \<open>swarmchaser.py: TorrentMaker\<close>

text \<open>
  \<^verbatim>\<open>
  class TorrentMaker:
      def __init__(self, download_url: str, announce: str, source: str, private: bool = True):
  \<close>
  The field \<open>private\<close> is \<open>private_flag\<close> here, and \<open>download_url\<close> is
  \<open>maker_download_url\<close> (the record of a tracked torrent has a \<open>download_url\<close> too).
\<close>

record TorrentMaker =
  maker_download_url :: string
  announce :: string
  source :: string
  private_flag :: bool

text \<open>
  \<^verbatim>\<open>
  ordered_info = OrderedDict()
  for key in sorted(info.keys()):
      ordered_info[key] = info[key]
  \<close>
  The loop, over the keys still to copy.
\<close>

fun order_info :: "string list \<Rightarrow> (string \<times> bvalue) list \<Rightarrow> (string \<times> bvalue) list \<Rightarrow>
    error + (string \<times> bvalue) list" where
  "order_info [] info ordered_info = Inr ordered_info"
| "order_info (key # ks) info ordered_info =
     (case getitem info key of
        Inl e \<Rightarrow> Inl e
      | Inr v \<Rightarrow> order_info ks info (setitem ordered_info key v))"

text \<open>
  \<^verbatim>\<open>
  def setup_torrent(self, bytestring: bytes) -> dict:
      torrent, _ = pyben.bendecode(bytestring)
      new_torrent = {}
      new_torrent["announce"] = self.announce
      new_torrent["creation date"] = int(datetime.now().timestamp())
      info = torrent["info"].copy()
      info["private"] = int(self.private)
      info["source"] = self.source
      # Torrent hash requires keys to be ordered:
      ordered_info = OrderedDict()
      for key in sorted(info.keys()):
          ordered_info[key] = info[key]
      new_torrent["info"] = ordered_info
      return new_torrent
  \<close>
  \<open>now\<close> is the reading of the clock, \<open>int(datetime.now().timestamp())\<close>. Of the decoded
  values only a dictionary has both \<open>.copy()\<close> and assignment to a string key: a list
  has \<open>.copy()\<close> but raises \<open>TypeError\<close> on \<open>info["private"] = ...\<close>, a string or an integer
  has no \<open>.copy()\<close>.
\<close>

definition setup_torrent :: "TorrentMaker \<Rightarrow> int \<Rightarrow> string \<Rightarrow> error + bvalue" where
  "setup_torrent self now bytestring =
     (case bendecode bytestring of
        Inl e \<Rightarrow> Inl e
      | Inr (torrent, _) \<Rightarrow>
          (let new_torrent = setitem (setitem [] ''announce'' (BStr (announce self)))
                               ''creation date'' (BInt now)
           in case subscript torrent ''info'' of
                Inl e \<Rightarrow> Inl e
              | Inr (BDict d) \<Rightarrow>
                  (let info = setitem d ''private'' (BInt (if private_flag self then 1 else 0));
                       info = setitem info ''source'' (BStr (source self))
                   in case order_info (sort (keys info)) info [] of
                        Inl e \<Rightarrow> Inl e
                      | Inr ordered_info \<Rightarrow>
                          Inr (BDict (setitem new_torrent ''info'' (BDict ordered_info))))
              | Inr (BList _) \<Rightarrow> Inl TypeError
              | Inr _ \<Rightarrow> Inl AttributeError))"

text \<open>
  \<^verbatim>\<open>
  def edit_torrent(self, bytestring: bytes) -> BytesIO:
      buffer = BytesIO()
      torrent = self.setup_torrent(bytestring)
      buffer.write(pyben.benencode(torrent))
      buffer.seek(0)
      return buffer
  \<close>
  The buffer is its content.
\<close>

definition edit_torrent :: "TorrentMaker \<Rightarrow> int \<Rightarrow> string \<Rightarrow> error + string" where
  "edit_torrent self now bytestring =
     (case setup_torrent self now bytestring of
        Inl e \<Rightarrow> Inl e
      | Inr torrent \<Rightarrow> Inr (benencode torrent))"

text \<open>
  \<^verbatim>\<open>
  def retrieve_torrent(self, url) -> bytes:
      response = requests.get(url)
      if len(response.content) == 0:
          raise JackettException(...)
      return response.content
  \<close>
  \<open>http_get\<close> is the content that \<open>requests.get\<close> returns for a URL.
\<close>

definition retrieve_torrent :: "(string \<Rightarrow> string) \<Rightarrow> string \<Rightarrow> error + string" where
  "retrieve_torrent http_get url =
     (let content = http_get url
      in if length content = 0 then Inl JackettException else Inr content)"

text \<open>
  \<^verbatim>\<open>
  def create(self) -> BytesIO:
      bytestring = self.retrieve_torrent(self.download_url)
      return self.edit_torrent(bytestring)
  \<close>
\<close>

definition create :: "TorrentMaker \<Rightarrow> (string \<Rightarrow> string) \<Rightarrow> int \<Rightarrow> error + string" where
  "create self http_get now =
     (case retrieve_torrent http_get (maker_download_url self) of
        Inl e \<Rightarrow> Inl e
      | Inr bytestring \<Rightarrow> edit_torrent self now bytestring)"

section \<open>models.py: the table of tracked torrents\<close>

text \<open>
  \<^verbatim>\<open>
  class TorrentStatus(enum.Enum):
      tracked = 1
      eligible = 2
      downloaded = 3
      uploaded = 4
      ineligible = 10
  \<close>
\<close>

datatype TorrentStatus = tracked | eligible | downloaded | uploaded | ineligible

text \<open>
  A parsed JSON document (what \<open>response.json()\<close> of \<open>requests\<close> returns, and the
  \<open>data\<close> of a Discogs release): \<open>None\<close>, a truth value, a number, a string, a list
  or a \<open>dict\<close> with string keys.
\<close>

datatype json =
    JNull
  | JBool bool
  | JInt int
  | JStr string
  | JList "json list"
  | JDict "(string \<times> json) list"

text \<open>\<open>value[key]\<close> with a string key: only a \<open>dict\<close> can be subscripted by a string.\<close>

fun json_subscript :: "json \<Rightarrow> string \<Rightarrow> error + json" where
  "json_subscript (JDict d) key = getitem d key"
| "json_subscript _ key = Inl TypeError"

text \<open>\<open>len(value)\<close>: defined on a list, a \<open>dict\<close> and a string.\<close>

fun json_len :: "json \<Rightarrow> error + nat" where
  "json_len (JList vs) = Inr (length vs)"
| "json_len (JDict d) = Inr (length d)"
| "json_len (JStr s) = Inr (length s)"
| "json_len _ = Inl TypeError"

text \<open>
  The columns of \<open>class Torrent(Base)\<close>, in the order of the source. \<open>id\<close> is
  \<open>torrent_id\<close> and \<open>size\<close> is \<open>torrent_size\<close> here. The columns the pipeline fills in
  later are optional: they hold \<open>None\<close> until then.
\<close>

record Torrent =
  torrent_id :: int
  rutracker_id :: int
  releasename :: string
  artist :: string
  album :: string
  year :: int
  details :: "string option"
  download_url :: string
  create_date :: int
  torrent_size :: int
  genres :: "string option"
  discogs_release_id :: "int option"
  discogs_release :: "json option"
  source_infohash :: string
  target_infohash :: "string option"
  last_updated :: int
  status :: TorrentStatus
  exists_redacted :: "bool option"

text \<open>
  \<^verbatim>\<open>
  def search_query(self):
      return f"{self.artist} - {self.album} - {self.year}"
  \<close>
\<close>

definition search_query :: "Torrent \<Rightarrow> string" where
  "search_query self = artist self @ '' - '' @ album self @ '' - '' @ show_int (year self)"

section \<open>The collaborators and what a run does to them\<close>

text \<open>
  The services the commands talk to are parameters of the model: each field gives what
  the service answers. \<open>discogs_search_ids\<close> is the list of the ids of the results of
  \<open>client.search(query, type="release")\<close>, in order; \<open>discogs_release_data\<close> the \<open>data\<close>
  of a release after \<open>refresh()\<close>; \<open>redacted_browse\<close> the JSON answer of the tracker's
  \<open>browse\<close> action; \<open>redacted_post\<close> the JSON answer to the upload request for a file
  name and a file content; \<open>http_get\<close> the content \<open>requests.get\<close> returns for a URL;
  \<open>qbt_torrents_info\<close> the \<open>infohash_v1\<close> of the torrents the client lists for a hash
  filter; \<open>now\<close> the reading of the clock, \<open>int(datetime.now().timestamp())\<close>.
  \<open>album_params\<close> stands for \<open>RedactedAlbumParameters(release).setup_params()\<close>, the
  form fields built from the stored release (or the exception it raises); the form is not
  looked into here. \<open>REDACTED_ANNOUNCE_URL\<close> is read from the environment of the process.
\<close>

record env =
  discogs_search_ids :: "string \<Rightarrow> int list"
  discogs_release_data :: "int \<Rightarrow> json"
  redacted_browse :: "string \<Rightarrow> json"
  album_params :: "json option \<Rightarrow> error + json"
  redacted_post :: "json \<Rightarrow> string \<Rightarrow> string \<Rightarrow> json"
  http_get :: "string \<Rightarrow> string"
  qbt_torrents_info :: "string \<Rightarrow> string list"
  now :: int
  REDACTED_ANNOUNCE_URL :: string

definition REDACTED_SOURCE_VALUE :: string where
  "REDACTED_SOURCE_VALUE = ''RED''"

text \<open>
  What a run does besides changing rows: the calls it makes to the collaborators and the
  lines it logs, in order. \<open>Discogs_fetch\<close> and \<open>Redacted_search\<close> are the calls of the
  two methods under \<open>functools.lru_cache\<close> (a repeated query within one run is answered
  from the cache).
\<close>

datatype message =
    No_discogs_release string
  | Exists_on_redacted string
  | Eligibility_summary nat nat
  | Sending_to_qbittorrent string
  | Sent_total nat nat
  | New_torrent_created json json
  | Added_to_qbittorrent
  | Failed_to_upload string json

datatype event =
    Discogs_fetch string
  | Discogs_release int
  | Redacted_search string
  | Http_get string
  | Redacted_post string string
  | Qbt_auth_log_in
  | Qbt_torrents_info string
  | Qbt_torrents_add string string
  | Qbt_torrents_delete string
  | Print string
  | Logging_debug message
  | Logging_info message
  | Logging_warning message

text \<open>
  A piece of code that may raise: the events it produced, and the exception or the
  value. \<open>and_then\<close> is sequencing: an exception ends the sequence, the events so far
  stay.
\<close>

type_synonym 'a action = "event list \<times> (error + 'a)"

definition returns :: "'a \<Rightarrow> 'a action" where
  "returns x = ([], Inr x)"

definition raises :: "error \<Rightarrow> 'a action" where
  "raises e = ([], Inl e)"

definition emit :: "event \<Rightarrow> unit action" where
  "emit ev = ([ev], Inr ())"

definition lift :: "error + 'a \<Rightarrow> 'a action" where
  "lift r = ([], r)"

definition and_then :: "'a action \<Rightarrow> ('a \<Rightarrow> 'b action) \<Rightarrow> 'b action" where
  "and_then m f =
     (case m of
        (evs, Inl e) \<Rightarrow> (evs, Inl e)
      | (evs, Inr x) \<Rightarrow> (case f x of (evs', r) \<Rightarrow> (evs @ evs', r)))"

section \<open>Rows, queries and the loop over a batch\<close>

text \<open>
  The table is the list of its rows. An object that a query returns is the row itself:
  assigning to its attributes changes the row, and \<open>session.commit()\<close> at the end of a
  command makes the changes last. A query result is therefore the list of the positions
  of the selected rows. A run yields its events, each with the position of the row that
  was being processed (\<open>None\<close> for what is done once for the batch), and either the
  exception that ended the command before the commit, in which case the table stays as it
  was, or the committed table.
\<close>

type_synonym trace = "(nat option \<times> event) list"

definition query :: "(Torrent \<Rightarrow> bool) \<Rightarrow> Torrent list \<Rightarrow> nat list" where
  "query P rows = filter (\<lambda>i. P (rows ! i)) [0..<length rows]"

definition for_row :: "nat \<Rightarrow> event list \<Rightarrow> trace" where
  "for_row i evs = map (\<lambda>ev. (Some i, ev)) evs"

definition for_batch :: "event list \<Rightarrow> trace" where
  "for_batch evs = map (\<lambda>ev. (None, ev)) evs"

text \<open>\<open>for torrent in torrents: ...\<close>, the body changing the object it is given.\<close>

fun for_each_row :: "(Torrent \<Rightarrow> Torrent action) \<Rightarrow> nat list \<Rightarrow> Torrent list \<Rightarrow>
    trace \<times> (error + Torrent list)" where
  "for_each_row body [] rows = ([], Inr rows)"
| "for_each_row body (i # is) rows =
     (case body (rows ! i) of
        (evs, Inl e) \<Rightarrow> (for_row i evs, Inl e)
      | (evs, Inr torrent) \<Rightarrow>
          (case for_each_row body is (rows[i := torrent]) of
             (evs', r) \<Rightarrow> (for_row i evs @ evs', r)))"

text \<open>The table after a run: the committed one, or the old one when the run raised.\<close>

definition table_after :: "Torrent list \<Rightarrow> trace \<times> (error + Torrent list) \<Rightarrow> Torrent list" where
  "table_after rows run = (case snd run of Inl e \<Rightarrow> rows | Inr rows' \<Rightarrow> rows')"

section \<open>models.py: update_eligibility\<close>

text \<open>
  \<^verbatim>\<open>
  def parse(self, results: dict) -> int:          # Discogs
      if results.count == 0:
          return None
      return results[0].id
  \<close>
\<close>

definition Discogs_parse :: "int list \<Rightarrow> int option" where
  "Discogs_parse results = (case results of [] \<Rightarrow> None | r # _ \<Rightarrow> Some r)"

text \<open>
  \<^verbatim>\<open>
  def search(self, torrent: Torrent) -> int:      # Discogs
      results = self.fetch(torrent.search_query())
      discog_id = self.parse(results)
      return discog_id
  \<close>
\<close>

definition Discogs_search :: "env \<Rightarrow> Torrent \<Rightarrow> (int option) action" where
  "Discogs_search env torrent =
     and_then (emit (Discogs_fetch (search_query torrent))) (\<lambda>_.
     returns (Discogs_parse (discogs_search_ids env (search_query torrent))))"

text \<open>
  \<^verbatim>\<open>
  def parse_num_torrents(self, results: dict) -> int:
      return len(results["response"]["results"])
  \<close>
\<close>

definition parse_num_torrents :: "json \<Rightarrow> error + nat" where
  "parse_num_torrents results =
     (case json_subscript results ''response'' of
        Inl e \<Rightarrow> Inl e
      | Inr response \<Rightarrow>
          (case json_subscript response ''results'' of
             Inl e \<Rightarrow> Inl e
           | Inr rs \<Rightarrow> json_len rs))"

text \<open>
  \<^verbatim>\<open>
  def check_exists(self, torrent: Torrent) -> bool:
      json = self.search(torrent.search_query())
      num_torrents = self.parse_num_torrents(json)
      return num_torrents > 0
  \<close>
\<close>

definition check_exists :: "env \<Rightarrow> Torrent \<Rightarrow> bool action" where
  "check_exists env torrent =
     and_then (emit (Redacted_search (search_query torrent))) (\<lambda>_.
     and_then (lift (parse_num_torrents (redacted_browse env (search_query torrent))))
       (\<lambda>num_torrents.
     returns (num_torrents > 0)))"

text \<open>
  The body of the loop of \<open>update_eligibility\<close>:
  \<^verbatim>\<open>
  assert torrent.status == TorrentStatus.tracked
  discogs_id = discogs.search(torrent)
  if discogs_id is None:
      torrent.status = TorrentStatus.ineligible
      logging.debug(...)
      ineligible += 1
      continue
  else:
      torrent.discogs_release_id = discogs_id
      release = discogs.release(discogs_id)
      assert release["artists"] is not None
      torrent.discogs_release = release
  can_upload = not redacted.check_exists(torrent)
  if not can_upload:
      logging.debug(...)
      torrent.status = TorrentStatus.ineligible
      ineligible += 1
  else:
      torrent.status = TorrentStatus.eligible
      torrent.last_updated = int(datetime.now().timestamp())
      updated += 1
  \<close>
\<close>

definition eligibility_step :: "env \<Rightarrow> Torrent \<Rightarrow> Torrent action" where
  "eligibility_step env torrent =
     (if status torrent \<noteq> tracked then raises AssertionError
      else
        and_then (Discogs_search env torrent) (\<lambda>discogs_id.
        case discogs_id of
          None \<Rightarrow>
            and_then (emit (Logging_debug (No_discogs_release (releasename torrent)))) (\<lambda>_.
            returns (torrent\<lparr>status := ineligible\<rparr>))
        | Some discogs_id \<Rightarrow>
            and_then (emit (Discogs_release discogs_id)) (\<lambda>_.
            and_then (lift (json_subscript (discogs_release_data env discogs_id) ''artists''))
              (\<lambda>artists.
            if artists = JNull then raises AssertionError
            else
              (let torrent = torrent\<lparr>discogs_release_id := Some discogs_id,
                               discogs_release := Some (discogs_release_data env discogs_id)\<rparr>
               in and_then (check_exists env torrent) (\<lambda>already_exists.
                  if already_exists then
                    and_then (emit (Logging_debug (Exists_on_redacted (releasename torrent))))
                      (\<lambda>_.
                    returns (torrent\<lparr>status := ineligible\<rparr>))
                  else
                    returns (torrent\<lparr>status := eligible, last_updated := now env\<rparr>)))))))"

text \<open>
  \<^verbatim>\<open>
  torrents = session.query(Torrent).filter(Torrent.status == TorrentStatus.tracked)
  updated, ineligible = 0, 0
  for torrent in torrents:
      ...
  session.commit()
  session.close()
  logging.info(f"Marked ({ineligible}) torrents as ineligible. Updated ({updated}) ...")
  \<close>
  The two counters count the rows of the batch that ended \<open>ineligible\<close> and \<open>eligible\<close>.
\<close>

definition update_eligibility :: "env \<Rightarrow> Torrent list \<Rightarrow> trace \<times> (error + Torrent list)" where
  "update_eligibility env rows =
     (let torrents = query (\<lambda>t. status t = tracked) rows
      in case for_each_row (eligibility_step env) torrents rows of
           (evs, Inl e) \<Rightarrow> (evs, Inl e)
         | (evs, Inr rows') \<Rightarrow>
             (evs @ for_batch [Logging_info (Eligibility_summary
                       (length (filter (\<lambda>i. status (rows' ! i) = ineligible) torrents))
                       (length (filter (\<lambda>i. status (rows' ! i) = eligible) torrents)))],
              Inr rows'))"

section \<open>swarmchaser.py: qBittorrent.download, and cli.py: download\<close>

text \<open>\<open>sep.join(xs)\<close>.\<close>

fun join :: "string \<Rightarrow> string list \<Rightarrow> string" where
  "join sep [] = ''''"
| "join sep [x] = x"
| "join sep (x # y # ys) = x @ sep @ join sep (y # ys)"

text \<open>
  \<^verbatim>\<open>
  def retrieve_torrents(self, torrents: [Torrent]) -> dict:
      hashes = "|".join(t.source_infohash for t in torrents)
      torrents = self.client.torrents_info(torrent_hashes=hashes)
      return set(t.infohash_v1 for t in torrents)
  \<close>
\<close>

definition retrieve_torrents :: "env \<Rightarrow> Torrent list \<Rightarrow> event list \<times> string set" where
  "retrieve_torrents env torrents =
     (let hashes = join ''|'' (map source_infohash torrents)
      in ([Qbt_torrents_info hashes], set (qbt_torrents_info env hashes)))"

text \<open>
  The loop of \<open>qBittorrent.download\<close>, over the positions of the selected rows; it
  returns the positions of the rows it sent to the client (\<open>successful\<close>).
  \<^verbatim>\<open>
  for torrent in torrents:
      if torrent.source_infohash in existing_torrents:
          skipped += 1
          continue
      response = requests.get(torrent.download_url)
      self.client.torrents_add(torrent_files=response.content, category=category,
                               seeding_time_limit=0)
      logging.info(f"Sending torrent to qBittorrent: {torrent.releasename}")
      successful.append(torrent)
  \<close>
\<close>

fun download_loop :: "env \<Rightarrow> string \<Rightarrow> string set \<Rightarrow> nat list \<Rightarrow> Torrent list \<Rightarrow>
    trace \<times> nat list" where
  "download_loop env category existing_torrents [] rows = ([], [])"
| "download_loop env category existing_torrents (i # is) rows =
     (let torrent = rows ! i;
          (evs', successful) = download_loop env category existing_torrents is rows
      in if source_infohash torrent \<in> existing_torrents then (evs', successful)
         else
           (for_row i [Http_get (download_url torrent),
                       Qbt_torrents_add (http_get env (download_url torrent)) category,
                       Logging_info (Sending_to_qbittorrent (releasename torrent))] @ evs',
            i # successful))"

text \<open>
  \<^verbatim>\<open>
  def download(self, torrents: [Torrent], category: str):
      existing_torrents = self.retrieve_torrents(torrents)
      successful = []
      skipped = 0
      for torrent in torrents: ...
      logging.info(f"Sent total of ({len(successful)}) torrents to qBittorrent. "
                   f"Skipped ({skipped}) existing torrents. ")
      return successful
  \<close>
\<close>

definition qBittorrent_download :: "env \<Rightarrow> nat list \<Rightarrow> Torrent list \<Rightarrow> string \<Rightarrow>
    trace \<times> nat list" where
  "qBittorrent_download env torrents rows category =
     (let (evs, existing_torrents) = retrieve_torrents env (map (\<lambda>i. rows ! i) torrents);
          (evs', successful) = download_loop env category existing_torrents torrents rows
      in (for_batch evs @ evs' @
          for_batch [Logging_info (Sent_total (length successful)
                                     (length torrents - length successful))],
          successful))"

text \<open>
  \<^verbatim>\<open>
  def download(category):
      qbt = sc.qBittorrent()
      session = models.create_session(models.engine)
      torrents = session.query(models.Torrent).filter(
          models.Torrent.status == models.TorrentStatus.eligible)
      successful = qbt.download(torrents, category)
      for torrent in successful:
          torrent.last_updated = int(datetime.now().timestamp())
          torrent.status = models.TorrentStatus.downloaded
      session.commit()
      session.close()
  \<close>
  The constructor of \<open>qBittorrent\<close> logs in to the client.
\<close>

definition mark_downloaded :: "env \<Rightarrow> Torrent \<Rightarrow> Torrent action" where
  "mark_downloaded env torrent =
     returns (torrent\<lparr>last_updated := now env, status := downloaded\<rparr>)"

definition download :: "env \<Rightarrow> string \<Rightarrow> Torrent list \<Rightarrow> trace \<times> (error + Torrent list)" where
  "download env category rows =
     (let torrents = query (\<lambda>t. status t = eligible) rows;
          (evs, successful) = qBittorrent_download env torrents rows category
      in case for_each_row (mark_downloaded env) successful rows of
           (evs', r) \<Rightarrow> (for_batch [Qbt_auth_log_in] @ evs @ evs', r))"

section \<open>swarmchaser.py: Redacted.upload, and cli.py: upload\<close>

text \<open>
  \<^verbatim>\<open>
  def edit_torrent(self, torrent: Torrent) -> BytesIO:      # Redacted
      torrent_maker = TorrentMaker(
          torrent.download_url,
          config.REDACTED_ANNOUNCE_URL,
          config.REDACTED_SOURCE_VALUE,
      )
      return torrent_maker.create()
  \<close>
  \<open>private\<close> keeps its default, \<open>True\<close>.
\<close>

definition Redacted_torrent_maker :: "env \<Rightarrow> Torrent \<Rightarrow> TorrentMaker" where
  "Redacted_torrent_maker env torrent =
     \<lparr>maker_download_url = download_url torrent,
      announce = REDACTED_ANNOUNCE_URL env,
      source = REDACTED_SOURCE_VALUE,
      private_flag = True\<rparr>"

definition Redacted_edit_torrent :: "env \<Rightarrow> Torrent \<Rightarrow> string action" where
  "Redacted_edit_torrent env torrent =
     and_then (emit (Http_get (download_url torrent))) (\<lambda>_.
     lift (create (Redacted_torrent_maker env torrent) (http_get env) (now env)))"

text \<open>
  \<^verbatim>\<open>
  def upload(self, torrent: Torrent) -> dict:               # Redacted
      url = "https://redacted.ch/ajax.php?action=upload"
      params = self.setup_params(torrent.discogs_release)
      filename = f"{torrent.id}.torrent"
      torrent_buffer = self.edit_torrent(torrent)
      files = {"file_input": (filename, torrent_buffer)}
      headers = {"Authorization": config.REDACTED_API_KEY}
      response = requests.post(url=url, data=params, files=files, headers=headers)
      return response.json()
  \<close>
  What it returns is the parsed JSON body of the answer, not the response object.
\<close>

definition Redacted_upload :: "env \<Rightarrow> Torrent \<Rightarrow> json action" where
  "Redacted_upload env torrent =
     and_then (lift (album_params env (discogs_release torrent))) (\<lambda>params.
     (let filename = show_int (torrent_id torrent) @ ''.torrent''
      in and_then (Redacted_edit_torrent env torrent) (\<lambda>torrent_buffer.
         and_then (emit (Redacted_post filename torrent_buffer)) (\<lambda>_.
         returns (redacted_post env params filename torrent_buffer)))))"

text \<open>
  \<open>response.json()\<close> in the command \<open>upload\<close>, where \<open>response\<close> is what
  \<open>Redacted.upload\<close> returned: a parsed JSON value, that is \<open>None\<close>, a \<open>bool\<close>, a
  number, a \<open>str\<close>, a \<open>list\<close> or a \<open>dict\<close>. None of these has an attribute \<open>json\<close>.
\<close>

definition json_attribute_json :: "json \<Rightarrow> error + json" where
  "json_attribute_json response = Inl AttributeError"

text \<open>
  The body of the loop of \<open>upload\<close>:
  \<^verbatim>\<open>
  response = redacted.upload(torrent)
  if response["status"] == "success":
      torrent.status = models.TorrentStatus.uploaded
      torrent.last_updated = int(datetime.now().timestamp())
      torrentid = response["response"]["torrentid"]
      groupid = response["response"]["groupid"]
      logging.info(f"New torrent created at: ...id={groupid}&torrentid={torrentid}")
      qbt = sc.qBittorrent()
      new_torrent = redacted.edit_torrent(torrent)
      bytestring = new_torrent.read()
      new_torrent.seek(0)
      torrent.target_infohash = sc.infohash(bytestring)
      qbt.client.torrents_add(
          torrent_files=new_torrent, category="swarmchaser", tags="myupload")
      qbt.client.torrents_delete(
          delete_files=False, torrent_hashes=torrent.source_infohash)
      logging.info("Torrent file added to qBittorrent")
  else:
      logging.warning(
          f"Failed to upload torrent: {torrent.releasename}\n\n\n{response.json()}\n")
  \<close>
  The argument of \<open>logging.warning\<close> is evaluated before the call.
\<close>

definition upload_step :: "env \<Rightarrow> Torrent \<Rightarrow> Torrent action" where
  "upload_step env torrent =
     and_then (Redacted_upload env torrent) (\<lambda>response.
     and_then (lift (json_subscript response ''status'')) (\<lambda>response_status.
     if response_status = JStr ''success'' then
       (let torrent = torrent\<lparr>status := uploaded, last_updated := now env\<rparr>
        in and_then (lift (json_subscript response ''response'')) (\<lambda>r.
           and_then (lift (json_subscript r ''torrentid'')) (\<lambda>torrentid.
           and_then (lift (json_subscript response ''response'')) (\<lambda>r'.
           and_then (lift (json_subscript r' ''groupid'')) (\<lambda>groupid.
           and_then (emit (Logging_info (New_torrent_created groupid torrentid))) (\<lambda>_.
           and_then (emit Qbt_auth_log_in) (\<lambda>_.
           and_then (Redacted_edit_torrent env torrent) (\<lambda>new_torrent.
           and_then (lift (infohash new_torrent)) (\<lambda>h.
           (let torrent = torrent\<lparr>target_infohash := Some h\<rparr>
            in and_then (emit (Qbt_torrents_add new_torrent ''swarmchaser'')) (\<lambda>_.
               and_then (emit (Qbt_torrents_delete (source_infohash torrent))) (\<lambda>_.
               and_then (emit (Logging_info Added_to_qbittorrent)) (\<lambda>_.
               returns torrent)))))))))))))
     else
       and_then (lift (json_attribute_json response)) (\<lambda>body.
       and_then (emit (Logging_warning (Failed_to_upload (releasename torrent) body))) (\<lambda>_.
       returns torrent))))"

text \<open>
  \<^verbatim>\<open>
  def upload(limit, verify, id):
      session = models.create_session(models.engine)
      if id:
          torrents = [
              session.query(models.Torrent).filter(models.Torrent.id == id).first()
          ]
          print(torrents[0].download_url)
      else:
          torrents = session.query(models.Torrent).filter(
              models.Torrent.status == models.TorrentStatus.downloaded)
      if verify:
          pass
      redacted = sc.Redacted(config.REDACTED_URL, config.REDACTED_API_KEY)
      for torrent in torrents:
          ...
      session.commit()
      session.close()
  \<close>
  \<open>limit\<close> and \<open>verify\<close> change nothing. \<open>if id:\<close> takes \<open>None\<close> and \<open>0\<close> as no id.
  With an id, \<open>.first()\<close> is the first row with that id, or \<open>None\<close>, on which
  \<open>torrents[0].download_url\<close> raises \<open>AttributeError\<close>.
\<close>

definition first_with_id :: "int \<Rightarrow> Torrent list \<Rightarrow> nat option" where
  "first_with_id i rows =
     (case query (\<lambda>t. torrent_id t = i) rows of [] \<Rightarrow> None | n # _ \<Rightarrow> Some n)"

definition upload_torrents :: "int option \<Rightarrow> Torrent list \<Rightarrow> (nat list) action" where
  "upload_torrents id_option rows =
     (case id_option of
        None \<Rightarrow> returns (query (\<lambda>t. status t = downloaded) rows)
      | Some i \<Rightarrow>
          if i = 0 then returns (query (\<lambda>t. status t = downloaded) rows)
          else
            (case first_with_id i rows of
               None \<Rightarrow> raises AttributeError
             | Some n \<Rightarrow>
                 and_then (emit (Print (download_url (rows ! n)))) (\<lambda>_.
                 returns [n])))"

definition upload :: "env \<Rightarrow> int option \<Rightarrow> Torrent list \<Rightarrow> trace \<times> (error + Torrent list)" where
  "upload env id_option rows =
     (case upload_torrents id_option rows of
        (evs, Inl e) \<Rightarrow> (for_batch evs, Inl e)
      | (evs, Inr torrents) \<Rightarrow>
          (case for_each_row (upload_step env) torrents rows of
             (evs', r) \<Rightarrow> (for_batch evs @ evs', r)))"

section \<open>A metainfo file to run the definitions on\<close>

definition example_metainfo :: string where
  "example_metainfo = ''d8:announce10:http://old7:comment1:c4:infod6:lengthi100e4:name1:x12:piece lengthi16384e6:pieces20:aaaaaaaaaaaaaaaaaaaaee''"

definition example_info :: "(string \<times> bvalue) list" where
  "example_info = [(''length'', BInt 100), (''name'', BStr ''x''), (''piece length'', BInt 16384),
                   (''pieces'', BStr ''aaaaaaaaaaaaaaaaaaaa'')]"

definition example_maker :: TorrentMaker where
  "example_maker = \<lparr>maker_download_url = ''http://jackett/dl/6001'', announce = ''http://new'',
                     source = ''RED'', private_flag = True\<rparr>"

section \<open>The commands of the pipeline and the order of the statuses\<close>

text \<open>
  The three commands that change the status of rows: \<open>refresh\<close> (which calls
  \<open>update_eligibility\<close>), \<open>download\<close> with its category, and \<open>upload\<close> with its
  option \<open>--id\<close>.
\<close>

datatype command = Refresh | Download string | Upload "int option"

fun run_command :: "env \<Rightarrow> command \<Rightarrow> Torrent list \<Rightarrow> trace \<times> (error + Torrent list)" where
  "run_command env Refresh rows = update_eligibility env rows"
| "run_command env (Download category) rows = download env category rows"
| "run_command env (Upload id_option) rows = upload env id_option rows"

text \<open>
  A sequence of runs, each with the collaborators as they answer during that run; a run
  that raised leaves the table as it found it.
\<close>

fun pipeline :: "(env \<times> command) list \<Rightarrow> Torrent list \<Rightarrow> Torrent list" where
  "pipeline [] rows = rows"
| "pipeline ((env, c) # runs) rows = pipeline runs (table_after rows (run_command env c rows))"

text \<open>The status whose rows a command queries; \<open>upload\<close> with an id queries by id instead.\<close>

fun source_status :: "command \<Rightarrow> TorrentStatus" where
  "source_status Refresh = tracked"
| "source_status (Download category) = eligible"
| "source_status (Upload id_option) = downloaded"

fun selects_by_status :: "command \<Rightarrow> bool" where
  "selects_by_status (Upload (Some i)) = (i = 0)"
| "selects_by_status _ = True"

text \<open>
  The transitions of the table in section 4.7 of the spec, and staying: what one run may
  do to the status of a row. \<open>not_backward\<close> is what any number of such steps may do.
\<close>

definition forward :: "TorrentStatus \<Rightarrow> TorrentStatus \<Rightarrow> bool" where
  "forward s s' \<longleftrightarrow>
     s' = s \<or>
     (s = tracked \<and> (s' = eligible \<or> s' = ineligible)) \<or>
     (s = eligible \<and> s' = downloaded) \<or>
     (s = downloaded \<and> s' = uploaded)"

definition not_backward :: "TorrentStatus \<Rightarrow> TorrentStatus \<Rightarrow> bool" where
  "not_backward s s' \<longleftrightarrow>
     s' = s \<or>
     s = tracked \<or>
     (s = eligible \<and> (s' = downloaded \<or> s' = uploaded)) \<or>
     (s = downloaded \<and> s' = uploaded)"

section \<open>A table and collaborators to run the commands on\<close>

definition example_torrent :: Torrent where
  "example_torrent = \<lparr>
     torrent_id = 1, rutracker_id = 6001,
     releasename = ''(Electronic) [FLAC] Boards of Canada - Music Has the Right to Children - 1998, WEB'',
     artist = ''Boards of Canada'', album = ''Music Has the Right to Children'', year = 1998,
     details = None, download_url = ''http://jackett/dl/6001'', create_date = 1600000000,
     torrent_size = 100, genres = None, discogs_release_id = None, discogs_release = None,
     source_infohash = ''0ed3ffd13d7861e3b9ae9671bc7150eb2785f454'', target_infohash = None,
     last_updated = 1600000001, status = tracked, exists_redacted = None\<rparr>"

text \<open>
  Discogs knows the first release (id 42) and a release \<open>Known - Album - 2001\<close> (id 43),
  which the destination tracker has already; it knows nothing else. The destination
  tracker accepts every upload but that of the torrent with id 13.
\<close>

definition example_release :: json where
  "example_release = JDict [(''artists'', JList [JDict [(''name'', JStr ''Boards of Canada'')]])]"

definition example_env :: env where
  "example_env = \<lparr>
     discogs_search_ids =
       (\<lambda>q. if q = ''Boards of Canada - Music Has the Right to Children - 1998'' then [42]
            else if q = ''Known - Album - 2001'' then [43, 44]
            else []),
     discogs_release_data = (\<lambda>i. example_release),
     redacted_browse =
       (\<lambda>q. JDict [(''status'', JStr ''success''),
                    (''response'',
                     JDict [(''results'',
                             if q = ''Known - Album - 2001'' then JList [JInt 5] else JList [])])]),
     album_params = (\<lambda>release. case release of None \<Rightarrow> Inl TypeError | Some _ \<Rightarrow> Inr (JDict [])),
     redacted_post =
       (\<lambda>params filename content.
          if filename = ''13.torrent''
          then JDict [(''status'', JStr ''failure''), (''error'', JStr ''rejected'')]
          else JDict [(''status'', JStr ''success''),
                      (''response'', JDict [(''torrentid'', JInt 7), (''groupid'', JInt 3)])]),
     http_get = (\<lambda>url. example_metainfo),
     qbt_torrents_info = (\<lambda>hashes. []),
     now = 1700000000,
     REDACTED_ANNOUNCE_URL = ''http://new''\<rparr>"

definition example_rows :: "Torrent list" where
  "example_rows =
     [example_torrent\<lparr>torrent_id := 11, artist := ''Nobody'', album := ''Nothing'', year := 1999\<rparr>,
      example_torrent\<lparr>torrent_id := 12, artist := ''Known'', album := ''Album'', year := 2001\<rparr>,
      example_torrent]"

text \<open>
  A row that \<open>refresh\<close> has marked \<open>ineligible\<close> because the destination tracker has
  the release already, and two downloaded rows, the first of which the destination
  tracker rejects.
\<close>

definition example_duplicate :: Torrent where
  "example_duplicate = example_torrent\<lparr>torrent_id := 12, artist := ''Known'', album := ''Album'',
                         year := 2001, discogs_release_id := Some 43,
                         discogs_release := Some example_release, status := ineligible\<rparr>"

definition example_rejected :: Torrent where
  "example_rejected = example_torrent\<lparr>torrent_id := 13, discogs_release_id := Some 42,
                        discogs_release := Some example_release, status := downloaded\<rparr>"

definition example_accepted :: Torrent where
  "example_accepted = example_torrent\<lparr>discogs_release_id := Some 42,
                        discogs_release := Some example_release, status := downloaded\<rparr>"

definition example_downloaded :: "Torrent list" where
  "example_downloaded = [example_rejected, example_accepted]"

text \<open>The same two rows in the other order: the accepted row is uploaded first.\<close>

definition example_mixed :: "Torrent list" where
  "example_mixed = [example_accepted, example_rejected]"

text \<open>What the rewrite makes of the example file, and its info dictionary encoded.\<close>

definition example_rewritten :: string where
  "example_rewritten = ''d8:announce10:http://new13:creation datei1700000000e4:infod6:lengthi100e4:name1:x12:piece lengthi16384e6:pieces20:aaaaaaaaaaaaaaaaaaaa7:privatei1e6:source3:REDee''"

definition example_rewritten_info :: string where
  "example_rewritten_info = ''d6:lengthi100e4:name1:x12:piece lengthi16384e6:pieces20:aaaaaaaaaaaaaaaaaaaa7:privatei1e6:source3:REDe''"

text \<open>One pass of the pipeline: \<open>refresh\<close>, \<open>download\<close>, \<open>upload\<close>.\<close>

definition example_runs :: "(env \<times> command) list" where
  "example_runs =
     [(example_env, Refresh), (example_env, Download ''swarmchaser''), (example_env, Upload None)]"

section \<open>Structural equality of decoded values\<close>





section \<open>Genre tags and release names: the examples\<close>

text \<open>
  Claim C8, as stated: parsing the genre field \<open>"Folk, World, & Country"\<close> with the genre
  parser yields the one-element result \<open>[""]\<close>. It does not: the field contains a comma,
  so \<open>parse_genres\<close> splits it before \<open>format_genre\<close> sees the pieces, and none of the
  pieces is the literal compound tag.
\<close>

theorem parse_genres_folk_counterexample:
  "parse_genres ''Folk, World, & Country'' \<noteq> ['''']"
  by (simp add: parse_genres_def find_separator_def split_def format_genre_def strip_def
      lower_def lower_char_def replace_def is_space_def)

text \<open>
  Claim C8, amended: the tag formatter \<open>format_genre\<close> maps the literal tag
  \<open>"Folk, World, & Country"\<close> to the empty tag, and the genre parser \<open>parse_genres\<close> on
  the field \<open>"Folk, World, & Country"\<close> splits at the commas and yields the three tags
  \<open>folk\<close>, \<open>world\<close> and \<open>&.country\<close>.
\<close>

theorem parse_genres_folk:
  "format_genre ''Folk, World, & Country'' = '''' \<and>
   parse_genres ''Folk, World, & Country'' = [''folk'', ''world'', ''&.country'']"
  by (simp add: parse_genres_def find_separator_def split_def format_genre_def strip_def
      lower_def lower_char_def replace_def is_space_def)

text \<open>
  Claim C9: the release title
  \<open>"(Electronic) [FLAC] Boards of Canada - Music Has the Right to Children - 1998, WEB"\<close>
  parses to artist \<open>Boards of Canada\<close>, album \<open>Music Has the Right to Children\<close>,
  year 1998 and the genre tags \<open>["electronic"]\<close>.
\<close>

theorem parse_releasename_example:
  "parse_releasename
     ''(Electronic) [FLAC] Boards of Canada - Music Has the Right to Children - 1998, WEB'' =
   Some (ReleaseName ''Boards of Canada'' ''Music Has the Right to Children'' 1998
           [''electronic''])"
  by code_simp

section \<open>The rewrite of a metainfo file\<close>

text \<open>
  The example file decodes to a dictionary with the keys \<open>announce\<close>, \<open>comment\<close> and
  \<open>info\<close>.
\<close>

lemma bendecode_example_metainfo:
  "bendecode example_metainfo =
     Inr (BDict [(''announce'', BStr ''http://old''), (''comment'', BStr ''c''),
                 (''info'', BDict example_info)], 120)"
  by code_simp

lemma map_of_setitem: "map_of (setitem d key v) = (map_of d)(key \<mapsto> v)"
  by (simp add: setitem_def update_conv')

lemma keys_setitem: "keys (setitem d key v) = (if key \<in> set (keys d) then keys d else keys d @ [key])"
  by (simp add: setitem_def keys_def update_keys)

lemma order_info_lookup:
  "order_info ks info acc = Inr r \<Longrightarrow>
   map_of r key = (if key \<in> set ks then map_of info key else map_of acc key)"
proof (induction ks arbitrary: acc)
  case Nil
  then show ?case by simp
next
  case (Cons k ks)
  then show ?case
    by (auto simp: getitem_def map_of_setitem split: option.splits if_splits)
qed

lemma order_info_succeeds:
  "set ks \<subseteq> set (keys info) \<Longrightarrow> \<exists>r. order_info ks info acc = Inr r"
proof (induction ks arbitrary: acc)
  case Nil
  then show ?case by simp
next
  case (Cons k ks)
  from Cons.prems have "k \<in> fst ` set info" by (simp add: keys_def)
  then obtain v where "map_of info k = Some v"
    by (metis domD dom_map_of_conv_image_fst)
  with Cons show ?case by (simp add: getitem_def)
qed

lemma order_info_keys:
  "order_info ks info acc = Inr r \<Longrightarrow> distinct ks \<Longrightarrow> set ks \<inter> set (keys acc) = {} \<Longrightarrow>
   keys r = keys acc @ ks"
proof (induction ks arbitrary: acc)
  case Nil
  then show ?case by simp
next
  case (Cons k ks)
  then show ?case
    by (auto simp: getitem_def keys_setitem split: option.splits)
qed

lemma setup_torrent_result:
  assumes "bendecode bytestring = Inr (torrent, n)"
    and "subscript torrent ''info'' = Inr (BDict info)"
  shows "\<exists>ordered_info.
           setup_torrent self timestamp bytestring =
             Inr (BDict [(''announce'', BStr (announce self)), (''creation date'', BInt timestamp),
                         (''info'', BDict ordered_info)]) \<and>
           order_info
             (sort (keys (setitem (setitem info ''private'' (BInt (if private_flag self then 1 else 0)))
                            ''source'' (BStr (source self)))))
             (setitem (setitem info ''private'' (BInt (if private_flag self then 1 else 0)))
                ''source'' (BStr (source self))) [] = Inr ordered_info"
proof -
  define info' where
    "info' = setitem (setitem info ''private'' (BInt (if private_flag self then 1 else 0)))
                     ''source'' (BStr (source self))"
  have "set (sort (keys info')) \<subseteq> set (keys info')" by simp
  then obtain ordered_info where oi: "order_info (sort (keys info')) info' [] = Inr ordered_info"
    using order_info_succeeds by blast
  have top: "setitem (setitem (setitem [] ''announce'' (BStr (announce self)))
                     ''creation date'' (BInt timestamp)) ''info'' (BDict ordered_info) =
             [(''announce'', BStr (announce self)), (''creation date'', BInt timestamp),
              (''info'', BDict ordered_info)]"
    by (simp add: setitem_def)
  have "setup_torrent self timestamp bytestring =
      Inr (BDict (setitem (setitem (setitem [] ''announce'' (BStr (announce self)))
                     ''creation date'' (BInt timestamp)) ''info'' (BDict ordered_info)))"
    unfolding setup_torrent_def Let_def assms(1) info'_def [symmetric]
    apply (simp only: sum.case prod.case assms(2) bvalue.case)
    apply (simp only: info'_def [symmetric] oi sum.case)
    done
  with top oi show ?thesis unfolding info'_def by simp
qed

text \<open>
  Claim C2: for every valid input metainfo (one that decodes and has a dictionary under
  \<open>info\<close>), the info dictionary of the rewritten torrent holds, under every key other
  than \<open>private\<close> and \<open>source\<close>, exactly what the input's info dictionary holds
  under that key (so \<open>name\<close>, \<open>piece length\<close>, \<open>pieces\<close> and \<open>length\<close> or \<open>files\<close>
  are untouched, and no key is added or lost); \<open>private\<close> is \<open>int\<close> of the private
  flag and \<open>source\<close> is the source tag.
\<close>

theorem setup_torrent_preserves_info:
  assumes "bendecode bytestring = Inr (torrent, n)"
    and "subscript torrent ''info'' = Inr (BDict info)"
  shows "\<exists>new_torrent ordered_info.
           setup_torrent self timestamp bytestring = Inr (BDict new_torrent) \<and>
           map_of new_torrent ''info'' = Some (BDict ordered_info) \<and>
           (\<forall>key. key \<noteq> ''private'' \<and> key \<noteq> ''source'' \<longrightarrow>
                  map_of ordered_info key = map_of info key) \<and>
           map_of ordered_info ''private'' = Some (BInt (if private_flag self then 1 else 0)) \<and>
           map_of ordered_info ''source'' = Some (BStr (source self))"
proof -
  define info' where
    "info' = setitem (setitem info ''private'' (BInt (if private_flag self then 1 else 0)))
                     ''source'' (BStr (source self))"
  from setup_torrent_result [OF assms, of self timestamp]
  obtain ordered_info where
    res: "setup_torrent self timestamp bytestring =
            Inr (BDict [(''announce'', BStr (announce self)), (''creation date'', BInt timestamp),
                        (''info'', BDict ordered_info)])"
    and oi: "order_info (sort (keys info')) info' [] = Inr ordered_info"
    unfolding info'_def by blast
  have look: "map_of ordered_info key = map_of info' key" for key
  proof (cases "key \<in> set (keys info')")
    case True
    with order_info_lookup [OF oi, of key] show ?thesis by simp
  next
    case False
    then have "map_of info' key = None" by (simp add: keys_def map_of_eq_None_iff)
    with False order_info_lookup [OF oi, of key] show ?thesis by simp
  qed
  show ?thesis
    using res look by (auto simp: info'_def map_of_setitem)
qed

theorem setup_torrent_preserves_info_witness:
  "bendecode example_metainfo =
     Inr (BDict [(''announce'', BStr ''http://old''), (''comment'', BStr ''c''),
                 (''info'', BDict example_info)], 120) \<and>
   subscript (BDict [(''announce'', BStr ''http://old''), (''comment'', BStr ''c''),
                     (''info'', BDict example_info)]) ''info'' = Inr (BDict example_info) \<and>
   (\<exists>new_torrent ordered_info.
      setup_torrent example_maker 1700000000 example_metainfo = Inr (BDict new_torrent) \<and>
      map_of new_torrent ''info'' = Some (BDict ordered_info) \<and>
      (\<forall>key. key \<noteq> ''private'' \<and> key \<noteq> ''source'' \<longrightarrow>
             map_of ordered_info key = map_of example_info key) \<and>
      map_of ordered_info ''private'' = Some (BInt (if private_flag example_maker then 1 else 0)) \<and>
      map_of ordered_info ''source'' = Some (BStr (source example_maker)))"
proof -
  have sub: "subscript (BDict [(''announce'', BStr ''http://old''), (''comment'', BStr ''c''),
                     (''info'', BDict example_info)]) ''info'' = Inr (BDict example_info)"
    by (simp add: getitem_def)
  from setup_torrent_preserves_info [OF bendecode_example_metainfo sub, of example_maker 1700000000]
  show ?thesis using bendecode_example_metainfo sub by blast
qed

text \<open>
  Claim C3, as stated: the top-level dictionary of the rewritten torrent has only the two
  keys \<open>announce\<close> and \<open>info\<close>. It has a third: \<open>setup_torrent\<close> also sets
  \<open>creation date\<close> to the reading of the clock.
\<close>

theorem setup_torrent_top_level_counterexample:
  "setup_torrent example_maker 1700000000 example_metainfo =
     Inr (BDict [(''announce'', BStr ''http://new''),
                 (''creation date'', BInt 1700000000),
                 (''info'', BDict [(''length'', BInt 100), (''name'', BStr ''x''),
                                   (''piece length'', BInt 16384),
                                   (''pieces'', BStr ''aaaaaaaaaaaaaaaaaaaa''),
                                   (''private'', BInt 1), (''source'', BStr ''RED'')])])"
  by code_simp

text \<open>
  Claim C3, amended: for every valid input metainfo, the top-level dictionary of the
  rewritten torrent has exactly the three keys \<open>announce\<close> (the new URL),
  \<open>creation date\<close> (the time of the rewrite) and \<open>info\<close> (the modified copy), in this
  order; every top-level key of the original document is discarded.
\<close>

theorem setup_torrent_top_level:
  assumes "bendecode bytestring = Inr (torrent, n)"
    and "subscript torrent ''info'' = Inr (BDict info)"
  shows "\<exists>ordered_info.
           setup_torrent self timestamp bytestring =
             Inr (BDict [(''announce'', BStr (announce self)), (''creation date'', BInt timestamp),
                         (''info'', BDict ordered_info)])"
  using setup_torrent_result [OF assms, of self timestamp] by blast

theorem setup_torrent_top_level_witness:
  "bendecode example_metainfo =
     Inr (BDict [(''announce'', BStr ''http://old''), (''comment'', BStr ''c''),
                 (''info'', BDict example_info)], 120) \<and>
   subscript (BDict [(''announce'', BStr ''http://old''), (''comment'', BStr ''c''),
                     (''info'', BDict example_info)]) ''info'' = Inr (BDict example_info) \<and>
   (\<exists>ordered_info.
      setup_torrent example_maker 1700000000 example_metainfo =
        Inr (BDict [(''announce'', BStr (announce example_maker)),
                    (''creation date'', BInt 1700000000),
                    (''info'', BDict ordered_info)]))"
proof -
  have sub: "subscript (BDict [(''announce'', BStr ''http://old''), (''comment'', BStr ''c''),
                     (''info'', BDict example_info)]) ''info'' = Inr (BDict example_info)"
    by (simp add: getitem_def)
  from setup_torrent_top_level [OF bendecode_example_metainfo sub, of example_maker 1700000000]
  show ?thesis using bendecode_example_metainfo sub by blast
qed

section \<open>The loop over a batch\<close>

lemma set_query: "set (query P rows) = {i. i < length rows \<and> P (rows ! i)}"
  by (auto simp: query_def)

lemma distinct_query: "distinct (query P rows)"
  by (simp add: query_def)

lemma for_each_row_length:
  "for_each_row body is rows = (evs, Inr rows') \<Longrightarrow> length rows' = length rows"
proof (induction "is" arbitrary: rows evs)
  case Nil
  then show ?case by simp
next
  case (Cons i "is")
  then show ?case
    by (auto split: prod.splits sum.splits)
qed

lemma for_each_row_frame:
  "for_each_row body is rows = (evs, Inr rows') \<Longrightarrow> j \<notin> set is \<Longrightarrow> rows' ! j = rows ! j"
proof (induction "is" arbitrary: rows evs)
  case Nil
  then show ?case by simp
next
  case (Cons i "is")
  then show ?case
    by (fastforce split: prod.splits sum.splits)
qed

lemma for_each_row_trace:
  "for_each_row body is rows = (evs, r) \<Longrightarrow> (tag, ev) \<in> set evs \<Longrightarrow> \<exists>i \<in> set is. tag = Some i"
proof (induction "is" arbitrary: rows evs)
  case Nil
  then show ?case by simp
next
  case (Cons i "is")
  then show ?case
    by (fastforce simp: for_row_def split: prod.splits sum.splits)
qed

lemma for_each_row_result:
  "for_each_row body is rows = (evs, Inr rows') \<Longrightarrow> distinct is \<Longrightarrow>
   \<forall>i \<in> set is. i < length rows \<Longrightarrow> i \<in> set is \<Longrightarrow>
   \<exists>evs_i. body (rows ! i) = (evs_i, Inr (rows' ! i)) \<and> set (for_row i evs_i) \<subseteq> set evs"
proof (induction "is" arbitrary: rows evs)
  case Nil
  then show ?case by simp
next
  case (Cons j "is")
  from Cons.prems(1) obtain evs1 t evs2 where
    body: "body (rows ! j) = (evs1, Inr t)"
    and rest: "for_each_row body is (rows[j := t]) = (evs2, Inr rows')"
    and evs: "evs = for_row j evs1 @ evs2"
    by (auto split: prod.splits sum.splits)
  show ?case
  proof (cases "i = j")
    case True
    from Cons.prems(2) have "j \<notin> set is" by simp
    with for_each_row_frame [OF rest] have "rows' ! j = rows[j := t] ! j" by blast
    with Cons.prems(3) have "rows' ! j = t" by simp
    with body evs True show ?thesis by auto
  next
    case False
    with Cons.prems have i: "i \<in> set is" and d: "distinct is"
      and b: "\<forall>i \<in> set is. i < length (rows[j := t])" by auto
    from Cons.IH [OF rest d b i] False evs show ?thesis by auto
  qed
qed

lemma for_each_row_reached:
  "for_each_row body is rows = (evs, r) \<Longrightarrow> distinct is \<Longrightarrow> (Some i, ev) \<in> set evs \<Longrightarrow>
   set (for_row i (fst (body (rows ! i)))) \<subseteq> set evs"
proof (induction "is" arbitrary: rows evs r)
  case Nil
  then show ?case by simp
next
  case (Cons j "is")
  obtain evs1 res where body: "body (rows ! j) = (evs1, res)" by (cases "body (rows ! j)")
  show ?case
  proof (cases res)
    case (Inl e)
    with Cons.prems(1) body have evs: "evs = for_row j evs1" by simp
    with Cons.prems(3) have "i = j" by (auto simp: for_row_def)
    with body evs show ?thesis by simp
  next
    case (Inr t)
    obtain evs2 r2 where rest: "for_each_row body is (rows[j := t]) = (evs2, r2)"
      by (cases "for_each_row body is (rows[j := t])")
    with Cons.prems(1) body Inr have evs: "evs = for_row j evs1 @ evs2" by simp
    show ?thesis
    proof (cases "i = j")
      case True
      with body evs show ?thesis by simp
    next
      case False
      with Cons.prems(3) evs have mem: "(Some i, ev) \<in> set evs2" by (auto simp: for_row_def)
      from Cons.prems(2) have d: "distinct is" by simp
      from Cons.IH [OF rest d mem]
      have "set (for_row i (fst (body (rows[j := t] ! i)))) \<subseteq> set evs2" .
      with False evs show ?thesis by auto
    qed
  qed
qed

lemma search_query_update [simp]:
  "search_query (t\<lparr>discogs_release_id := a\<rparr>) = search_query t"
  "search_query (t\<lparr>discogs_release := b\<rparr>) = search_query t"
  "search_query (t\<lparr>status := c\<rparr>) = search_query t"
  by (simp_all add: search_query_def)

lemma check_exists_cases:
  "check_exists env t =
     (case parse_num_torrents (redacted_browse env (search_query t)) of
        Inl e \<Rightarrow> ([Redacted_search (search_query t)], Inl e)
      | Inr n \<Rightarrow> ([Redacted_search (search_query t)], Inr (0 < n)))"
  by (simp add: check_exists_def and_then_def emit_def lift_def returns_def split: sum.splits)

lemma eligibility_step_result:
  assumes "eligibility_step env t = (evs, Inr t')"
  shows "status t = tracked \<and>
         (case Discogs_parse (discogs_search_ids env (search_query t)) of
            None \<Rightarrow> t' = t\<lparr>status := ineligible\<rparr>
          | Some d \<Rightarrow>
              (\<exists>dup. snd (check_exists env t) = Inr dup \<and>
                 t' = (if dup
                       then t\<lparr>discogs_release_id := Some d,
                              discogs_release := Some (discogs_release_data env d),
                              status := ineligible\<rparr>
                       else t\<lparr>discogs_release_id := Some d,
                              discogs_release := Some (discogs_release_data env d),
                              status := eligible, last_updated := now env\<rparr>)))"
  using assms
  by (auto simp: eligibility_step_def Discogs_search_def check_exists_cases and_then_def
      emit_def lift_def returns_def raises_def Let_def
      split: if_splits option.splits sum.splits prod.splits)


lemma update_eligibility_row:
  assumes "update_eligibility env rows = (evs, Inr rows')"
    and "i < length rows" and "status (rows ! i) = tracked"
  shows "\<exists>evs_i. eligibility_step env (rows ! i) = (evs_i, Inr (rows' ! i))"
proof -
  let ?torrents = "query (\<lambda>t. status t = tracked) rows"
  from assms(1) obtain evs0 where
    run: "for_each_row (eligibility_step env) ?torrents rows = (evs0, Inr rows')"
    by (auto simp: update_eligibility_def Let_def split: prod.splits sum.splits)
  have "i \<in> set ?torrents" using assms(2,3) by (simp add: set_query)
  moreover have "\<forall>i \<in> set ?torrents. i < length rows" by (simp add: set_query)
  ultimately show ?thesis
    using for_each_row_result [OF run distinct_query] by blast
qed

section \<open>The eligibility step\<close>

text \<open>
  The example table has three tracked rows: one that Discogs does not know, one that the
  destination tracker has already, and one that is free to upload.
\<close>

lemma update_eligibility_example:
  "update_eligibility example_env example_rows =
     ([(Some 0, Discogs_fetch ''Nobody - Nothing - 1999''),
       (Some 0, Logging_debug (No_discogs_release (releasename example_torrent))),
       (Some 1, Discogs_fetch ''Known - Album - 2001''),
       (Some 1, Discogs_release 43),
       (Some 1, Redacted_search ''Known - Album - 2001''),
       (Some 1, Logging_debug (Exists_on_redacted (releasename example_torrent))),
       (Some 2, Discogs_fetch ''Boards of Canada - Music Has the Right to Children - 1998''),
       (Some 2, Discogs_release 42),
       (Some 2, Redacted_search ''Boards of Canada - Music Has the Right to Children - 1998''),
       (None, Logging_info (Eligibility_summary 2 1))],
      Inr [(example_rows ! 0)\<lparr>status := ineligible\<rparr>,
           (example_rows ! 1)\<lparr>discogs_release_id := Some 43, discogs_release := Some example_release,
                              status := ineligible\<rparr>,
           (example_rows ! 2)\<lparr>discogs_release_id := Some 42, discogs_release := Some example_release,
                              status := eligible, last_updated := 1700000000\<rparr>])"
  by code_simp

text \<open>
  Claim C5: when a run of \<open>update_eligibility\<close> completes, every row that was
  \<open>tracked\<close> has made one of three transitions. If the matcher found nothing, the row
  is \<open>ineligible\<close> and no other field has changed. If a match was found and the
  duplicate check is true, the row is \<open>ineligible\<close> and the matched id and the full
  record are stored (nothing else changes). If a match was found and the duplicate check
  is false, the row is \<open>eligible\<close>, the matched id and record are stored, and
  \<open>last_updated\<close> is the time of the run.
\<close>

theorem update_eligibility_transitions:
  assumes "update_eligibility env rows = (evs, Inr rows')"
    and "i < length rows" and "status (rows ! i) = tracked"
  shows "(Discogs_parse (discogs_search_ids env (search_query (rows ! i))) = None \<longrightarrow>
            rows' ! i = (rows ! i)\<lparr>status := ineligible\<rparr>) \<and>
         (\<forall>d. Discogs_parse (discogs_search_ids env (search_query (rows ! i))) = Some d \<longrightarrow>
            (snd (check_exists env (rows ! i)) = Inr True \<longrightarrow>
               rows' ! i = (rows ! i)\<lparr>discogs_release_id := Some d,
                              discogs_release := Some (discogs_release_data env d),
                              status := ineligible\<rparr>) \<and>
            (snd (check_exists env (rows ! i)) = Inr False \<longrightarrow>
               rows' ! i = (rows ! i)\<lparr>discogs_release_id := Some d,
                              discogs_release := Some (discogs_release_data env d),
                              status := eligible, last_updated := now env\<rparr>))"
proof -
  from update_eligibility_row [OF assms] obtain evs_i where
    "eligibility_step env (rows ! i) = (evs_i, Inr (rows' ! i))" by blast
  from eligibility_step_result [OF this] show ?thesis
    by (auto split: option.splits if_splits)
qed

theorem update_eligibility_transitions_witness:
  "\<exists>evs rows'.
     update_eligibility example_env example_rows = (evs, Inr rows') \<and>
     status (example_rows ! 0) = tracked \<and>
     Discogs_parse (discogs_search_ids example_env (search_query (example_rows ! 0))) = None \<and>
     rows' ! 0 = (example_rows ! 0)\<lparr>status := ineligible\<rparr> \<and>
     status (example_rows ! 1) = tracked \<and>
     Discogs_parse (discogs_search_ids example_env (search_query (example_rows ! 1))) = Some 43 \<and>
     snd (check_exists example_env (example_rows ! 1)) = Inr True \<and>
     rows' ! 1 = (example_rows ! 1)\<lparr>discogs_release_id := Some 43,
                    discogs_release := Some (discogs_release_data example_env 43),
                    status := ineligible\<rparr> \<and>
     status (example_rows ! 2) = tracked \<and>
     Discogs_parse (discogs_search_ids example_env (search_query (example_rows ! 2))) = Some 42 \<and>
     snd (check_exists example_env (example_rows ! 2)) = Inr False \<and>
     rows' ! 2 = (example_rows ! 2)\<lparr>discogs_release_id := Some 42,
                    discogs_release := Some (discogs_release_data example_env 42),
                    status := eligible, last_updated := now example_env\<rparr>"
proof -
  note run = update_eligibility_example
  have len: "0 < length example_rows" "1 < length example_rows" "2 < length example_rows"
    by (simp_all add: example_rows_def)
  have st: "status (example_rows ! 0) = tracked" "status (example_rows ! 1) = tracked"
    "status (example_rows ! 2) = tracked"
    by (simp_all add: example_rows_def example_torrent_def)
  have m0: "Discogs_parse (discogs_search_ids example_env (search_query (example_rows ! 0))) = None"
    by code_simp
  have m1: "Discogs_parse (discogs_search_ids example_env (search_query (example_rows ! 1))) = Some 43"
    by code_simp
  have m2: "Discogs_parse (discogs_search_ids example_env (search_query (example_rows ! 2))) = Some 42"
    by code_simp
  have d1: "snd (check_exists example_env (example_rows ! 1)) = Inr True"
    by code_simp
  have d2: "snd (check_exists example_env (example_rows ! 2)) = Inr False"
    by code_simp
  from update_eligibility_transitions [OF run len(1) st(1)] m0
  have r0: "[(example_rows ! 0)\<lparr>status := ineligible\<rparr>,
             (example_rows ! 1)\<lparr>discogs_release_id := Some 43,
                discogs_release := Some example_release, status := ineligible\<rparr>,
             (example_rows ! 2)\<lparr>discogs_release_id := Some 42,
                discogs_release := Some example_release, status := eligible,
                last_updated := 1700000000\<rparr>] ! 0 = (example_rows ! 0)\<lparr>status := ineligible\<rparr>"
    by blast
  from update_eligibility_transitions [OF run len(2) st(2)] m1 d1
  have r1: "[(example_rows ! 0)\<lparr>status := ineligible\<rparr>,
             (example_rows ! 1)\<lparr>discogs_release_id := Some 43,
                discogs_release := Some example_release, status := ineligible\<rparr>,
             (example_rows ! 2)\<lparr>discogs_release_id := Some 42,
                discogs_release := Some example_release, status := eligible,
                last_updated := 1700000000\<rparr>] ! 1 =
            (example_rows ! 1)\<lparr>discogs_release_id := Some 43,
                    discogs_release := Some (discogs_release_data example_env 43),
                    status := ineligible\<rparr>"
    by blast
  from update_eligibility_transitions [OF run len(3) st(3)] m2 d2
  have r2: "[(example_rows ! 0)\<lparr>status := ineligible\<rparr>,
             (example_rows ! 1)\<lparr>discogs_release_id := Some 43,
                discogs_release := Some example_release, status := ineligible\<rparr>,
             (example_rows ! 2)\<lparr>discogs_release_id := Some 42,
                discogs_release := Some example_release, status := eligible,
                last_updated := 1700000000\<rparr>] ! 2 =
            (example_rows ! 2)\<lparr>discogs_release_id := Some 42,
                    discogs_release := Some (discogs_release_data example_env 42),
                    status := eligible, last_updated := now example_env\<rparr>"
    by blast
  from run st m0 m1 m2 d1 d2 r0 r1 r2 show ?thesis by blast
qed

section \<open>The upload step\<close>

text \<open>
  What \<open>Redacted.upload\<close> and the body of the loop of \<open>upload\<close> do, case by case.
  The body returns normally only on the success branch: on any other answer it raises
  \<open>AttributeError\<close> while it builds the text of the warning.
\<close>

lemma Redacted_edit_torrent_eq:
  "Redacted_edit_torrent env t =
     ([Http_get (download_url t)], create (Redacted_torrent_maker env t) (http_get env) (now env))"
  by (simp add: Redacted_edit_torrent_def and_then_def emit_def lift_def split: sum.splits)

lemma Redacted_upload_result:
  assumes "Redacted_upload env t = (evs, Inr response)"
  shows "\<exists>params buf.
           album_params env (discogs_release t) = Inr params \<and>
           create (Redacted_torrent_maker env t) (http_get env) (now env) = Inr buf \<and>
           evs = [Http_get (download_url t),
                  Redacted_post (show_int (torrent_id t) @ ''.torrent'') buf] \<and>
           response = redacted_post env params (show_int (torrent_id t) @ ''.torrent'') buf"
  using assms
  by (auto simp: Redacted_upload_def Redacted_edit_torrent_eq and_then_def emit_def lift_def
      returns_def Let_def split: sum.splits prod.splits)

lemma Redacted_upload_success:
  assumes "album_params env (discogs_release t) = Inr params"
    and "create (Redacted_torrent_maker env t) (http_get env) (now env) = Inr buf"
  shows "Redacted_upload env t =
           ([Http_get (download_url t),
             Redacted_post (show_int (torrent_id t) @ ''.torrent'') buf],
            Inr (redacted_post env params (show_int (torrent_id t) @ ''.torrent'') buf))"
  using assms
  by (simp add: Redacted_upload_def Redacted_edit_torrent_eq and_then_def emit_def lift_def
      returns_def Let_def)

lemma upload_step_success:
  assumes "Redacted_upload env t = (evs0, Inr response)"
    and "json_subscript response ''status'' = Inr (JStr ''success'')"
    and "json_subscript response ''response'' = Inr r"
    and "json_subscript r ''torrentid'' = Inr torrentid"
    and "json_subscript r ''groupid'' = Inr groupid"
    and "create (Redacted_torrent_maker env t) (http_get env) (now env) = Inr new_torrent"
    and "infohash new_torrent = Inr h"
  shows "upload_step env t =
           (evs0 @ [Logging_info (New_torrent_created groupid torrentid),
                    Qbt_auth_log_in,
                    Http_get (download_url t),
                    Qbt_torrents_add new_torrent ''swarmchaser'',
                    Qbt_torrents_delete (source_infohash t),
                    Logging_info Added_to_qbittorrent],
            Inr (t\<lparr>status := uploaded, last_updated := now env, target_infohash := Some h\<rparr>))"
proof -
  have maker: "Redacted_torrent_maker env (t\<lparr>status := uploaded, last_updated := now env\<rparr>) =
               Redacted_torrent_maker env t"
    by (simp add: Redacted_torrent_maker_def)
  show ?thesis
    using assms
    by (simp add: upload_step_def Redacted_edit_torrent_eq maker and_then_def emit_def lift_def
        returns_def Let_def)
qed

lemma upload_step_failure:
  assumes "Redacted_upload env t = (evs0, Inr response)"
    and "json_subscript response ''status'' = Inr s"
    and "s \<noteq> JStr ''success''"
  shows "upload_step env t = (evs0, Inl AttributeError)"
  using assms
  by (simp add: upload_step_def json_attribute_json_def and_then_def lift_def)

lemma upload_step_result:
  assumes "upload_step env t = (evs, Inr t')"
  shows "\<exists>evs0 response new_torrent h body.
           Redacted_upload env t = (evs0, Inr response) \<and>
           json_subscript response ''status'' = Inr (JStr ''success'') \<and>
           create (Redacted_torrent_maker env t) (http_get env) (now env) = Inr new_torrent \<and>
           infohash new_torrent = Inr h \<and>
           t' = t\<lparr>status := uploaded, last_updated := now env, target_infohash := Some h\<rparr> \<and>
           evs = evs0 @ [Logging_info body,
                    Qbt_auth_log_in,
                    Http_get (download_url t),
                    Qbt_torrents_add new_torrent ''swarmchaser'',
                    Qbt_torrents_delete (source_infohash t),
                    Logging_info Added_to_qbittorrent]"
proof -
  have maker: "Redacted_torrent_maker env (t\<lparr>status := uploaded, last_updated := now env\<rparr>) =
               Redacted_torrent_maker env t"
    by (simp add: Redacted_torrent_maker_def)
  obtain evs0 r0 where up: "Redacted_upload env t = (evs0, r0)" by (cases "Redacted_upload env t")
  show ?thesis
    using assms up
    by (auto simp: upload_step_def Redacted_edit_torrent_eq maker and_then_def emit_def lift_def
        returns_def Let_def json_attribute_json_def split: sum.splits prod.splits if_splits)
qed

lemma upload_torrents_indices:
  assumes "upload_torrents id_option rows = (evs0, Inr torrents)"
  shows "distinct torrents \<and> (\<forall>i \<in> set torrents. i < length rows)"
proof -
  have q: "first_with_id n rows = Some k \<Longrightarrow> k < length rows" for n k
  proof -
    assume "first_with_id n rows = Some k"
    then have "k \<in> set (query (\<lambda>t. torrent_id t = n) rows)"
      by (auto simp: first_with_id_def split: list.splits)
    then show ?thesis by (simp add: set_query)
  qed
  show ?thesis
    using assms q
    by (auto simp: upload_torrents_def returns_def raises_def and_then_def emit_def
        distinct_query set_query split: option.splits if_splits)
qed

text \<open>
  The rewritten example file decodes, so its infohash is the hexadecimal SHA-1 of its
  encoded info dictionary; the digest itself is left unevaluated.
\<close>

lemma example_infohash:
  "infohash example_rewritten = Inr (hexdigest (sha1 example_rewritten_info))"
proof -
  have dec: "bendecode example_rewritten =
     Inr (BDict [(''announce'', BStr ''http://new''), (''creation date'', BInt 1700000000),
                 (''info'', BDict [(''length'', BInt 100), (''name'', BStr ''x''),
                                   (''piece length'', BInt 16384),
                                   (''pieces'', BStr ''aaaaaaaaaaaaaaaaaaaa''),
                                   (''private'', BInt 1), (''source'', BStr ''RED'')])], 161)"
    by code_simp
  have enc: "benencode (BDict [(''length'', BInt 100), (''name'', BStr ''x''),
                                   (''piece length'', BInt 16384),
                                   (''pieces'', BStr ''aaaaaaaaaaaaaaaaaaaa''),
                                   (''private'', BInt 1), (''source'', BStr ''RED'')]) =
             example_rewritten_info"
    by code_simp
  have sub: "subscript (BDict [(''announce'', BStr ''http://new''),
                 (''creation date'', BInt 1700000000),
                 (''info'', BDict [(''length'', BInt 100), (''name'', BStr ''x''),
                                   (''piece length'', BInt 16384),
                                   (''pieces'', BStr ''aaaaaaaaaaaaaaaaaaaa''),
                                   (''private'', BInt 1), (''source'', BStr ''RED'')])]) ''info'' =
             Inr (BDict [(''length'', BInt 100), (''name'', BStr ''x''),
                                   (''piece length'', BInt 16384),
                                   (''pieces'', BStr ''aaaaaaaaaaaaaaaaaaaa''),
                                   (''private'', BInt 1), (''source'', BStr ''RED'')])"
    by (simp add: getitem_def)
  show ?thesis
    unfolding infohash_def dec
    by (simp only: prod.case sum.case sub enc)
qed

lemma example_upload_step_accepted:
  "upload_step example_env example_accepted =
     ([Http_get ''http://jackett/dl/6001'',
       Redacted_post ''1.torrent'' example_rewritten,
       Logging_info (New_torrent_created (JInt 3) (JInt 7)),
       Qbt_auth_log_in,
       Http_get ''http://jackett/dl/6001'',
       Qbt_torrents_add example_rewritten ''swarmchaser'',
       Qbt_torrents_delete ''0ed3ffd13d7861e3b9ae9671bc7150eb2785f454'',
       Logging_info Added_to_qbittorrent],
      Inr (example_accepted\<lparr>status := uploaded, last_updated := 1700000000,
             target_infohash := Some (hexdigest (sha1 example_rewritten_info))\<rparr>))"
proof -
  have up: "Redacted_upload example_env example_accepted =
     ([Http_get ''http://jackett/dl/6001'', Redacted_post ''1.torrent'' example_rewritten],
      Inr (JDict [(''status'', JStr ''success''),
                  (''response'', JDict [(''torrentid'', JInt 7), (''groupid'', JInt 3)])]))"
    by code_simp
  have c: "create (Redacted_torrent_maker example_env example_accepted)
             (http_get example_env) (now example_env) = Inr example_rewritten"
    by code_simp
  have s1: "json_subscript (JDict [(''status'', JStr ''success''),
                  (''response'', JDict [(''torrentid'', JInt 7), (''groupid'', JInt 3)])]) ''status'' =
            Inr (JStr ''success'')"
    and s2: "json_subscript (JDict [(''status'', JStr ''success''),
                  (''response'', JDict [(''torrentid'', JInt 7), (''groupid'', JInt 3)])]) ''response'' =
            Inr (JDict [(''torrentid'', JInt 7), (''groupid'', JInt 3)])"
    and s3: "json_subscript (JDict [(''torrentid'', JInt 7), (''groupid'', JInt 3)]) ''torrentid'' =
            Inr (JInt 7)"
    and s4: "json_subscript (JDict [(''torrentid'', JInt 7), (''groupid'', JInt 3)]) ''groupid'' =
            Inr (JInt 3)"
    by (simp_all add: getitem_def)
  have f: "download_url example_accepted = ''http://jackett/dl/6001''"
    "source_infohash example_accepted = ''0ed3ffd13d7861e3b9ae9671bc7150eb2785f454''"
    "now example_env = 1700000000"
    by (simp_all add: example_accepted_def example_torrent_def example_env_def)
  from upload_step_success [OF up s1 s2 s3 s4 c example_infohash]
  show ?thesis by (simp add: f)
qed

lemma example_upload_step_duplicate:
  "upload_step example_env example_duplicate =
     ([Http_get ''http://jackett/dl/6001'',
       Redacted_post ''12.torrent'' example_rewritten,
       Logging_info (New_torrent_created (JInt 3) (JInt 7)),
       Qbt_auth_log_in,
       Http_get ''http://jackett/dl/6001'',
       Qbt_torrents_add example_rewritten ''swarmchaser'',
       Qbt_torrents_delete ''0ed3ffd13d7861e3b9ae9671bc7150eb2785f454'',
       Logging_info Added_to_qbittorrent],
      Inr (example_duplicate\<lparr>status := uploaded, last_updated := 1700000000,
             target_infohash := Some (hexdigest (sha1 example_rewritten_info))\<rparr>))"
proof -
  have up: "Redacted_upload example_env example_duplicate =
     ([Http_get ''http://jackett/dl/6001'', Redacted_post ''12.torrent'' example_rewritten],
      Inr (JDict [(''status'', JStr ''success''),
                  (''response'', JDict [(''torrentid'', JInt 7), (''groupid'', JInt 3)])]))"
    by code_simp
  have c: "create (Redacted_torrent_maker example_env example_duplicate)
             (http_get example_env) (now example_env) = Inr example_rewritten"
    by code_simp
  have s1: "json_subscript (JDict [(''status'', JStr ''success''),
                  (''response'', JDict [(''torrentid'', JInt 7), (''groupid'', JInt 3)])]) ''status'' =
            Inr (JStr ''success'')"
    and s2: "json_subscript (JDict [(''status'', JStr ''success''),
                  (''response'', JDict [(''torrentid'', JInt 7), (''groupid'', JInt 3)])]) ''response'' =
            Inr (JDict [(''torrentid'', JInt 7), (''groupid'', JInt 3)])"
    and s3: "json_subscript (JDict [(''torrentid'', JInt 7), (''groupid'', JInt 3)]) ''torrentid'' =
            Inr (JInt 7)"
    and s4: "json_subscript (JDict [(''torrentid'', JInt 7), (''groupid'', JInt 3)]) ''groupid'' =
            Inr (JInt 3)"
    by (simp_all add: getitem_def)
  have f: "download_url example_duplicate = ''http://jackett/dl/6001''"
    "source_infohash example_duplicate = ''0ed3ffd13d7861e3b9ae9671bc7150eb2785f454''"
    "now example_env = 1700000000"
    by (simp_all add: example_duplicate_def example_torrent_def example_env_def)
  from upload_step_success [OF up s1 s2 s3 s4 c example_infohash]
  show ?thesis by (simp add: f)
qed

lemma example_upload_accepted:
  "upload example_env None [example_accepted] =
     ([(Some 0, Http_get ''http://jackett/dl/6001''),
       (Some 0, Redacted_post ''1.torrent'' example_rewritten),
       (Some 0, Logging_info (New_torrent_created (JInt 3) (JInt 7))),
       (Some 0, Qbt_auth_log_in),
       (Some 0, Http_get ''http://jackett/dl/6001''),
       (Some 0, Qbt_torrents_add example_rewritten ''swarmchaser''),
       (Some 0, Qbt_torrents_delete ''0ed3ffd13d7861e3b9ae9671bc7150eb2785f454''),
       (Some 0, Logging_info Added_to_qbittorrent)],
      Inr [example_accepted\<lparr>status := uploaded, last_updated := 1700000000,
             target_infohash := Some (hexdigest (sha1 example_rewritten_info))\<rparr>])"
proof -
  have sel: "upload_torrents None [example_accepted] = ([], Inr [0])"
    by code_simp
  show ?thesis
    unfolding upload_def sel
    by (simp add: example_upload_step_accepted for_row_def for_batch_def)
qed

lemma example_upload_step_rejected:
  "upload_step example_env example_rejected =
     ([Http_get ''http://jackett/dl/6001'', Redacted_post ''13.torrent'' example_rewritten],
      Inl AttributeError)"
proof -
  have up: "Redacted_upload example_env example_rejected =
     ([Http_get ''http://jackett/dl/6001'', Redacted_post ''13.torrent'' example_rewritten],
      Inr (JDict [(''status'', JStr ''failure''), (''error'', JStr ''rejected'')]))"
    by code_simp
  have s: "json_subscript (JDict [(''status'', JStr ''failure''), (''error'', JStr ''rejected'')])
             ''status'' = Inr (JStr ''failure'')"
    by (simp add: getitem_def)
  have ne: "JStr ''failure'' \<noteq> JStr ''success''" by simp
  from upload_step_failure [OF up s ne] show ?thesis .
qed

lemma example_upload_mixed:
  "upload example_env None example_mixed =
     ([(Some 0, Http_get ''http://jackett/dl/6001''),
       (Some 0, Redacted_post ''1.torrent'' example_rewritten),
       (Some 0, Logging_info (New_torrent_created (JInt 3) (JInt 7))),
       (Some 0, Qbt_auth_log_in),
       (Some 0, Http_get ''http://jackett/dl/6001''),
       (Some 0, Qbt_torrents_add example_rewritten ''swarmchaser''),
       (Some 0, Qbt_torrents_delete ''0ed3ffd13d7861e3b9ae9671bc7150eb2785f454''),
       (Some 0, Logging_info Added_to_qbittorrent),
       (Some 1, Http_get ''http://jackett/dl/6001''),
       (Some 1, Redacted_post ''13.torrent'' example_rewritten)],
      Inl AttributeError)"
proof -
  have sel: "upload_torrents None example_mixed = ([], Inr [0, 1])"
    by code_simp
  show ?thesis
    unfolding upload_def sel
    by (simp add: example_mixed_def example_upload_step_accepted example_upload_step_rejected
        for_row_def for_batch_def)
qed

text \<open>
  Claim C10: for every record whose upload succeeds, the command does more than write the
  row. Take any run of \<open>upload\<close>, whatever its outcome, and any row \<open>i\<close> the run
  reached (the trace holds an event of row \<open>i\<close>) on which the loop body returned, which it
  does only if the destination tracker answered \<open>success\<close>. Then the row the body returned
  is the old one with the status \<open>uploaded\<close>, \<open>last_updated\<close> the time of the run and
  \<open>target_infohash\<close> the infohash of the rewritten torrent; the trace of the run holds,
  for row \<open>i\<close>, the addition of the rewritten torrent file to the download client (category
  \<open>swarmchaser\<close>) and the deletion from the download client of the torrent with the row's
  \<open>source_infohash\<close>; and if the run commits, the committed table holds the returned row
  at \<open>i\<close>. The two effects on the download client are there also when a later row makes
  the run raise, in which case the row itself is not written.
\<close>

theorem upload_success_effects:
  assumes "upload env id_option rows = (evs, r)"
    and "(Some i, ev) \<in> set evs"
    and "upload_step env (rows ! i) = (evs_i, Inr t')"
  shows "\<exists>response new_torrent h.
           snd (Redacted_upload env (rows ! i)) = Inr response \<and>
           json_subscript response ''status'' = Inr (JStr ''success'') \<and>
           create (Redacted_torrent_maker env (rows ! i)) (http_get env) (now env) =
             Inr new_torrent \<and>
           infohash new_torrent = Inr h \<and>
           t' = (rows ! i)\<lparr>status := uploaded, last_updated := now env,
                             target_infohash := Some h\<rparr> \<and>
           (Some i, Qbt_torrents_add new_torrent ''swarmchaser'') \<in> set evs \<and>
           (Some i, Qbt_torrents_delete (source_infohash (rows ! i))) \<in> set evs \<and>
           (\<forall>rows'. r = Inr rows' \<longrightarrow> rows' ! i = t')"
proof -
  obtain evs0 sel where sel: "upload_torrents id_option rows = (evs0, sel)"
    by (cases "upload_torrents id_option rows")
  from assms(1,2) sel obtain torrents where t: "sel = Inr torrents"
    by (cases sel) (auto simp: upload_def for_batch_def)
  obtain evs1 r1 where run: "for_each_row (upload_step env) torrents rows = (evs1, r1)"
    by (cases "for_each_row (upload_step env) torrents rows")
  from assms(1) sel t run have evs: "evs = for_batch evs0 @ evs1" and r: "r = r1"
    by (simp_all add: upload_def)
  from assms(2) evs have mem: "(Some i, ev) \<in> set evs1" by (auto simp: for_batch_def)
  from sel t upload_torrents_indices have d: "distinct torrents"
    and b: "\<forall>i \<in> set torrents. i < length rows" by blast+
  from for_each_row_trace [OF run mem] have i: "i \<in> set torrents" by simp
  from for_each_row_reached [OF run d mem] assms(3)
  have sub: "set (for_row i evs_i) \<subseteq> set evs1" by simp
  from upload_step_result [OF assms(3)] obtain evs2 response new_torrent h body where
    u: "Redacted_upload env (rows ! i) = (evs2, Inr response)"
    and s: "json_subscript response ''status'' = Inr (JStr ''success'')"
    and c: "create (Redacted_torrent_maker env (rows ! i)) (http_get env) (now env) = Inr new_torrent"
    and h: "infohash new_torrent = Inr h"
    and t': "t' = (rows ! i)\<lparr>status := uploaded, last_updated := now env,
                                target_infohash := Some h\<rparr>"
    and e: "evs_i = evs2 @ [Logging_info body, Qbt_auth_log_in, Http_get (download_url (rows ! i)),
                    Qbt_torrents_add new_torrent ''swarmchaser'',
                    Qbt_torrents_delete (source_infohash (rows ! i)),
                    Logging_info Added_to_qbittorrent]"
    by blast
  from e have "(Some i, Qbt_torrents_add new_torrent ''swarmchaser'') \<in> set (for_row i evs_i)"
    and "(Some i, Qbt_torrents_delete (source_infohash (rows ! i))) \<in> set (for_row i evs_i)"
    by (simp_all add: for_row_def)
  with sub evs have add: "(Some i, Qbt_torrents_add new_torrent ''swarmchaser'') \<in> set evs"
    and del: "(Some i, Qbt_torrents_delete (source_infohash (rows ! i))) \<in> set evs"
    by auto
  have commit: "rows' ! i = t'" if "r = Inr rows'" for rows'
  proof -
    from that r run have "for_each_row (upload_step env) torrents rows = (evs1, Inr rows')"
      by simp
    from for_each_row_result [OF this d b i] assms(3) show ?thesis by auto
  qed
  from u have "snd (Redacted_upload env (rows ! i)) = Inr response" by simp
  with s c h t' add del commit show ?thesis by blast
qed

theorem upload_success_effects_witness:
  "snd (upload example_env None example_mixed) = Inl AttributeError \<and>
   (Some 0, Http_get ''http://jackett/dl/6001'') \<in> set (fst (upload example_env None example_mixed)) \<and>
   snd (upload_step example_env (example_mixed ! 0)) =
     Inr (example_accepted\<lparr>status := uploaded, last_updated := 1700000000,
            target_infohash := Some (hexdigest (sha1 example_rewritten_info))\<rparr>) \<and>
   (\<exists>response new_torrent h.
      snd (Redacted_upload example_env (example_mixed ! 0)) = Inr response \<and>
      json_subscript response ''status'' = Inr (JStr ''success'') \<and>
      create (Redacted_torrent_maker example_env (example_mixed ! 0))
        (http_get example_env) (now example_env) = Inr new_torrent \<and>
      infohash new_torrent = Inr h \<and>
      example_accepted\<lparr>status := uploaded, last_updated := 1700000000,
            target_infohash := Some (hexdigest (sha1 example_rewritten_info))\<rparr> =
        (example_mixed ! 0)\<lparr>status := uploaded, last_updated := now example_env,
                              target_infohash := Some h\<rparr> \<and>
      (Some 0, Qbt_torrents_add new_torrent ''swarmchaser'') \<in>
        set (fst (upload example_env None example_mixed)) \<and>
      (Some 0, Qbt_torrents_delete (source_infohash (example_mixed ! 0))) \<in>
        set (fst (upload example_env None example_mixed))) \<and>
   snd (upload example_env None [example_accepted]) =
     Inr [example_accepted\<lparr>status := uploaded, last_updated := 1700000000,
            target_infohash := Some (hexdigest (sha1 example_rewritten_info))\<rparr>] \<and>
   [example_accepted\<lparr>status := uploaded, last_updated := 1700000000,
            target_infohash := Some (hexdigest (sha1 example_rewritten_info))\<rparr>] ! 0 =
     example_accepted\<lparr>status := uploaded, last_updated := 1700000000,
            target_infohash := Some (hexdigest (sha1 example_rewritten_info))\<rparr>"
proof -
  let ?t' = "example_accepted\<lparr>status := uploaded, last_updated := 1700000000,
            target_infohash := Some (hexdigest (sha1 example_rewritten_info))\<rparr>"
  have row: "example_mixed ! 0 = example_accepted" "[example_accepted] ! 0 = example_accepted"
    by (simp_all add: example_mixed_def)
  obtain evs where run: "upload example_env None example_mixed = (evs, Inl AttributeError)"
    and reached: "(Some 0, Http_get ''http://jackett/dl/6001'') \<in> set evs"
    using example_upload_mixed by simp
  obtain evs_i where step: "upload_step example_env (example_mixed ! 0) = (evs_i, Inr ?t')"
    using example_upload_step_accepted row(1) by simp
  note mixed = upload_success_effects [OF run reached step]
  obtain evs' where run': "upload example_env None [example_accepted] = (evs', Inr [?t'])"
    and reached': "(Some 0, Http_get ''http://jackett/dl/6001'') \<in> set evs'"
    using example_upload_accepted by simp
  obtain evs_j where step': "upload_step example_env ([example_accepted] ! 0) = (evs_j, Inr ?t')"
    using example_upload_step_accepted row(2) by simp
  from upload_success_effects [OF run' reached' step']
  have commit: "[?t'] ! 0 = ?t'" by blast
  from run have a: "snd (upload example_env None example_mixed) = Inl AttributeError" by simp
  from run reached have b:
    "(Some 0, Http_get ''http://jackett/dl/6001'') \<in> set (fst (upload example_env None example_mixed))"
    by simp
  from step have c: "snd (upload_step example_env (example_mixed ! 0)) = Inr ?t'" by simp
  from mixed run have d: "\<exists>response new_torrent h.
      snd (Redacted_upload example_env (example_mixed ! 0)) = Inr response \<and>
      json_subscript response ''status'' = Inr (JStr ''success'') \<and>
      create (Redacted_torrent_maker example_env (example_mixed ! 0))
        (http_get example_env) (now example_env) = Inr new_torrent \<and>
      infohash new_torrent = Inr h \<and>
      ?t' = (example_mixed ! 0)\<lparr>status := uploaded, last_updated := now example_env,
                              target_infohash := Some h\<rparr> \<and>
      (Some 0, Qbt_torrents_add new_torrent ''swarmchaser'') \<in>
        set (fst (upload example_env None example_mixed)) \<and>
      (Some 0, Qbt_torrents_delete (source_infohash (example_mixed ! 0))) \<in>
        set (fst (upload example_env None example_mixed))"
    by auto
  from run' have e: "snd (upload example_env None [example_accepted]) = Inr [?t']" by simp
  show ?thesis
    using a b c d e commit by - (intro conjI; assumption)
qed

text \<open>
  Claim C4 holds of the specification but not of the code. The table has two downloaded
  rows and the destination tracker rejects the first. The claim says: the failure is
  logged, the row stays as it is, and the second row is processed. The code raises
  \<open>AttributeError\<close> in the failure branch (\<open>response\<close> is the parsed JSON, which has no
  \<open>json()\<close>): nothing is logged, the second row is never reached, and nothing is
  committed.
\<close>

theorem upload_failure_aborts_batch:
  "upload example_env None example_downloaded =
     ([(Some 0, Http_get ''http://jackett/dl/6001''),
       (Some 0, Redacted_post ''13.torrent'' example_rewritten)],
      Inl AttributeError) \<and>
   table_after example_downloaded (upload example_env None example_downloaded) =
     example_downloaded"
proof -
  have sel: "upload_torrents None example_downloaded = ([], Inr [0, 1])"
    by code_simp
  have "upload example_env None example_downloaded =
     ([(Some 0, Http_get ''http://jackett/dl/6001''),
       (Some 0, Redacted_post ''13.torrent'' example_rewritten)],
      Inl AttributeError)"
    unfolding upload_def sel
    by (simp add: example_downloaded_def example_upload_step_rejected for_row_def for_batch_def)
  then show ?thesis by (simp add: table_after_def)
qed

section \<open>The statuses only move forward\<close>

text \<open>
  What one run of a command does to the table, when the command takes its rows by
  status: the table keeps its length, rows outside the status the command queries are
  untouched, every status moves along the table of transitions or stays, and
  everything the run does for a row, it does for a row it queried.
\<close>

lemma forward_refl: "forward s s"
  by (simp add: forward_def)

lemma forward_not_backward: "forward s s' \<Longrightarrow> not_backward s s'"
  by (auto simp: forward_def not_backward_def)

lemma not_backward_trans: "not_backward a b \<Longrightarrow> not_backward b c \<Longrightarrow> not_backward a c"
  by (auto simp: not_backward_def)

lemma table_after_Inl: "snd run = Inl e \<Longrightarrow> table_after rows run = rows"
  by (simp add: table_after_def)

lemma table_after_Inr: "snd run = Inr rows' \<Longrightarrow> table_after rows run = rows'"
  by (simp add: table_after_def)

lemma table_after_snd: "snd run = snd run' \<Longrightarrow> table_after rows run = table_after rows run'"
  by (simp add: table_after_def)

lemma for_each_row_table:
  assumes d: "distinct is"
    and sel: "\<forall>i \<in> set is. i < length rows \<and> status (rows ! i) = src"
    and step: "\<And>t evs t'. body t = (evs, Inr t') \<Longrightarrow> status t = src \<Longrightarrow>
                 forward src (status t')"
  shows "length (table_after rows (for_each_row body is rows)) = length rows"
    and "i < length rows \<Longrightarrow> status (rows ! i) \<noteq> src \<Longrightarrow>
           table_after rows (for_each_row body is rows) ! i = rows ! i"
    and "i < length rows \<Longrightarrow>
           forward (status (rows ! i)) (status (table_after rows (for_each_row body is rows) ! i))"
proof -
  obtain evs r where run: "for_each_row body is rows = (evs, r)"
    by (cases "for_each_row body is rows")
  show "length (table_after rows (for_each_row body is rows)) = length rows"
    using run for_each_row_length [of body "is" rows evs]
    by (cases r) (auto simp: table_after_def)
  show "table_after rows (for_each_row body is rows) ! i = rows ! i"
    if "i < length rows" and "status (rows ! i) \<noteq> src"
  proof (cases r)
    case (Inl e)
    with run show ?thesis by (simp add: table_after_def)
  next
    case (Inr rows')
    from that sel have "i \<notin> set is" by auto
    with run Inr for_each_row_frame [of body "is" rows evs rows' i]
    show ?thesis by (simp add: table_after_def)
  qed
  show "forward (status (rows ! i)) (status (table_after rows (for_each_row body is rows) ! i))"
    if "i < length rows"
  proof (cases r)
    case (Inl e)
    with run show ?thesis by (simp add: table_after_def forward_refl)
  next
    case (Inr rows')
    with run have run': "for_each_row body is rows = (evs, Inr rows')" by simp
    have after: "table_after rows (for_each_row body is rows) = rows'"
      using run' by (simp add: table_after_def)
    show ?thesis
    proof (cases "i \<in> set is")
      case True
      from sel have b: "\<forall>i \<in> set is. i < length rows" by blast
      from for_each_row_result [OF run' d b True] obtain evs_i where
        "body (rows ! i) = (evs_i, Inr (rows' ! i))" by blast
      moreover from sel True have "status (rows ! i) = src" by blast
      ultimately show ?thesis using step after by metis
    next
      case False
      with for_each_row_frame [OF run'] after show ?thesis by (simp add: forward_refl)
    qed
  qed
qed

lemma eligibility_step_status:
  assumes "eligibility_step env t = (evs, Inr t')"
  shows "status t' = ineligible \<or> status t' = eligible"
  using assms
  by (auto simp: eligibility_step_def Discogs_search_def check_exists_cases and_then_def
      emit_def lift_def returns_def raises_def Let_def
      split: if_splits option.splits sum.splits prod.splits)

lemma eligibility_step_forward:
  "eligibility_step env t = (evs, Inr t') \<Longrightarrow> status t = tracked \<Longrightarrow>
   forward tracked (status t')"
  using eligibility_step_status [of env t evs t'] by (auto simp: forward_def)

lemma upload_step_forward:
  assumes "upload_step env t = (evs, Inr t')" and "status t = downloaded"
  shows "forward downloaded (status t')"
proof -
  from upload_step_result [OF assms(1)] obtain h where
    "t' = t\<lparr>status := uploaded, last_updated := now env, target_infohash := Some h\<rparr>"
    by blast
  then show ?thesis by (simp add: forward_def)
qed

lemma mark_downloaded_forward:
  "mark_downloaded env t = (evs, Inr t') \<Longrightarrow> status t = eligible \<Longrightarrow>
   forward eligible (status t')"
  by (auto simp: mark_downloaded_def returns_def forward_def)

lemma download_loop_subset:
  "download_loop env category existing is rows = (evs, successful) \<Longrightarrow>
   set successful \<subseteq> set is"
proof (induction "is" arbitrary: evs successful)
  case Nil
  then show ?case by simp
next
  case (Cons i "is")
  obtain evs' successful' where
    rest: "download_loop env category existing is rows = (evs', successful')"
    by (cases "download_loop env category existing is rows")
  from Cons.IH [OF rest] Cons.prems rest show ?case
    by (auto simp: Let_def split: if_splits)
qed

lemma download_loop_distinct:
  "download_loop env category existing is rows = (evs, successful) \<Longrightarrow>
   distinct is \<Longrightarrow> distinct successful"
proof (induction "is" arbitrary: evs successful)
  case Nil
  then show ?case by simp
next
  case (Cons i "is")
  obtain evs' successful' where
    rest: "download_loop env category existing is rows = (evs', successful')"
    by (cases "download_loop env category existing is rows")
  from Cons.prems have "i \<notin> set is" "distinct is" by simp_all
  with Cons.IH [OF rest] download_loop_subset [OF rest] Cons.prems(1) rest show ?case
    by (auto simp: Let_def split: if_splits)
qed

lemma download_loop_trace:
  "download_loop env category existing is rows = (evs, successful) \<Longrightarrow>
   (tag, ev) \<in> set evs \<Longrightarrow> \<exists>i \<in> set is. tag = Some i"
proof (induction "is" arbitrary: evs successful)
  case Nil
  then show ?case by simp
next
  case (Cons i "is")
  obtain evs' successful' where
    rest: "download_loop env category existing is rows = (evs', successful')"
    by (cases "download_loop env category existing is rows")
  show ?case
  proof (cases "source_infohash (rows ! i) \<in> existing")
    case True
    with Cons.prems rest have "(tag, ev) \<in> set evs'" by (simp add: Let_def)
    from Cons.IH [OF rest this] show ?thesis by auto
  next
    case False
    with Cons.prems rest have "(tag, ev) \<in> set (for_row i [Http_get (download_url (rows ! i)),
        Qbt_torrents_add (http_get env (download_url (rows ! i))) category,
        Logging_info (Sending_to_qbittorrent (releasename (rows ! i)))]) \<or> (tag, ev) \<in> set evs'"
      by (auto simp: Let_def)
    then show ?thesis
    proof
      assume "(tag, ev) \<in> set (for_row i [Http_get (download_url (rows ! i)),
        Qbt_torrents_add (http_get env (download_url (rows ! i))) category,
        Logging_info (Sending_to_qbittorrent (releasename (rows ! i)))])"
      then have "tag = Some i" by (auto simp: for_row_def)
      then show ?thesis by simp
    next
      assume "(tag, ev) \<in> set evs'"
      from Cons.IH [OF rest this] show ?thesis by auto
    qed
  qed
qed

lemma snd_update_eligibility:
  "snd (update_eligibility env rows) =
   snd (for_each_row (eligibility_step env) (query (\<lambda>t. status t = tracked) rows) rows)"
  by (auto simp: update_eligibility_def Let_def split: prod.splits sum.splits)

lemma snd_download:
  "\<exists>successful. set successful \<subseteq> set (query (\<lambda>t. status t = eligible) rows) \<and>
     distinct successful \<and>
     snd (download env category rows) =
     snd (for_each_row (mark_downloaded env) successful rows)"
proof -
  let ?torrents = "query (\<lambda>t. status t = eligible) rows"
  obtain evs existing where r: "retrieve_torrents env (map (\<lambda>i. rows ! i) ?torrents) = (evs, existing)"
    by (cases "retrieve_torrents env (map (\<lambda>i. rows ! i) ?torrents)")
  obtain evs' successful where
    l: "download_loop env category existing ?torrents rows = (evs', successful)"
    by (cases "download_loop env category existing ?torrents rows")
  from download_loop_subset [OF l] download_loop_distinct [OF l distinct_query]
  have "set successful \<subseteq> set ?torrents" "distinct successful" by blast+
  moreover have "snd (download env category rows) =
     snd (for_each_row (mark_downloaded env) successful rows)"
    using r l by (simp add: download_def qBittorrent_download_def Let_def split: prod.splits)
  ultimately show ?thesis by blast
qed

lemma snd_upload:
  "selects_by_status (Upload id_option) \<Longrightarrow>
   snd (upload env id_option rows) =
   snd (for_each_row (upload_step env) (query (\<lambda>t. status t = downloaded) rows) rows)"
  by (cases id_option)
     (auto simp: upload_def upload_torrents_def returns_def split: prod.splits sum.splits)


lemma run_command_table:
  assumes "selects_by_status c"
  shows "length (table_after rows (run_command env c rows)) = length rows"
    and "i < length rows \<Longrightarrow> status (rows ! i) \<noteq> source_status c \<Longrightarrow>
           table_after rows (run_command env c rows) ! i = rows ! i"
    and "i < length rows \<Longrightarrow>
           forward (status (rows ! i)) (status (table_after rows (run_command env c rows) ! i))"
proof -
  have "\<exists>body is. distinct is \<and>
          (\<forall>i \<in> set is. i < length rows \<and> status (rows ! i) = source_status c) \<and>
          (\<forall>t evs t'. body t = (evs, Inr t') \<longrightarrow> status t = source_status c \<longrightarrow>
             forward (source_status c) (status t')) \<and>
          table_after rows (run_command env c rows) = table_after rows (for_each_row body is rows)"
  proof (cases c)
    case Refresh
    let ?is = "query (\<lambda>t. status t = tracked) rows"
    have "table_after rows (run_command env c rows) =
          table_after rows (for_each_row (eligibility_step env) ?is rows)"
      using Refresh by (simp add: table_after_snd [OF snd_update_eligibility])
    moreover have "distinct ?is" by (rule distinct_query)
    moreover have "\<forall>i \<in> set ?is. i < length rows \<and> status (rows ! i) = source_status c"
      using Refresh by (simp add: set_query)
    moreover have "\<forall>t evs t'. eligibility_step env t = (evs, Inr t') \<longrightarrow>
        status t = source_status c \<longrightarrow> forward (source_status c) (status t')"
      using Refresh eligibility_step_forward by simp
    ultimately show ?thesis by blast
  next
    case (Download category)
    from snd_download [of rows env category] obtain successful where
      s: "set successful \<subseteq> set (query (\<lambda>t. status t = eligible) rows)" "distinct successful"
      and e: "snd (download env category rows) =
              snd (for_each_row (mark_downloaded env) successful rows)" by blast
    have "table_after rows (run_command env c rows) =
          table_after rows (for_each_row (mark_downloaded env) successful rows)"
      using Download by (simp add: table_after_snd [OF e])
    moreover have "\<forall>i \<in> set successful. i < length rows \<and> status (rows ! i) = source_status c"
      using Download s(1) by (auto simp: set_query)
    moreover have "\<forall>t evs t'. mark_downloaded env t = (evs, Inr t') \<longrightarrow>
        status t = source_status c \<longrightarrow> forward (source_status c) (status t')"
      using Download mark_downloaded_forward by simp
    ultimately show ?thesis using s(2) by blast
  next
    case (Upload id_option)
    with assms have sel: "selects_by_status (Upload id_option)" by simp
    let ?is = "query (\<lambda>t. status t = downloaded) rows"
    have "table_after rows (run_command env c rows) =
          table_after rows (for_each_row (upload_step env) ?is rows)"
      using Upload by (simp add: table_after_snd [OF snd_upload [OF sel]])
    moreover have "distinct ?is" by (rule distinct_query)
    moreover have "\<forall>i \<in> set ?is. i < length rows \<and> status (rows ! i) = source_status c"
      using Upload by (simp add: set_query)
    moreover have "\<forall>t evs t'. upload_step env t = (evs, Inr t') \<longrightarrow>
        status t = source_status c \<longrightarrow> forward (source_status c) (status t')"
      using Upload upload_step_forward by simp
    ultimately show ?thesis by blast
  qed
  then obtain body "is" where
    d: "distinct is"
    and sel: "\<forall>i \<in> set is. i < length rows \<and> status (rows ! i) = source_status c"
    and step: "\<And>t evs t'. body t = (evs, Inr t') \<Longrightarrow> status t = source_status c \<Longrightarrow>
                 forward (source_status c) (status t')"
    and eq: "table_after rows (run_command env c rows) = table_after rows (for_each_row body is rows)"
    by blast
  note tab = for_each_row_table [OF d sel step]
  show "length (table_after rows (run_command env c rows)) = length rows"
    using tab(1) by (simp add: eq)
  show "table_after rows (run_command env c rows) ! i = rows ! i"
    if "i < length rows" and "status (rows ! i) \<noteq> source_status c"
    using tab(2) that by (simp add: eq)
  show "forward (status (rows ! i)) (status (table_after rows (run_command env c rows) ! i))"
    if "i < length rows"
    using tab(3) that by (simp add: eq)
qed


lemma for_batch_tag [simp]: "(Some i, ev) \<notin> set (for_batch evs)"
  by (auto simp: for_batch_def)

lemma update_eligibility_trace:
  assumes "(Some i, ev) \<in> set (fst (update_eligibility env rows))"
  shows "i < length rows \<and> status (rows ! i) = tracked"
proof -
  let ?is = "query (\<lambda>t. status t = tracked) rows"
  obtain evs r where run: "for_each_row (eligibility_step env) ?is rows = (evs, r)"
    by (cases "for_each_row (eligibility_step env) ?is rows")
  with assms have "(Some i, ev) \<in> set evs"
    by (cases r) (auto simp: update_eligibility_def Let_def)
  from for_each_row_trace [OF run this] show ?thesis by (simp add: set_query)
qed

lemma download_trace:
  assumes "(Some i, ev) \<in> set (fst (download env category rows))"
  shows "i < length rows \<and> status (rows ! i) = eligible"
proof -
  let ?is = "query (\<lambda>t. status t = eligible) rows"
  obtain evs0 existing where
    r: "retrieve_torrents env (map (\<lambda>i. rows ! i) ?is) = (evs0, existing)"
    by (cases "retrieve_torrents env (map (\<lambda>i. rows ! i) ?is)")
  obtain evs1 successful where
    l: "download_loop env category existing ?is rows = (evs1, successful)"
    by (cases "download_loop env category existing ?is rows")
  obtain evs2 res where m: "for_each_row (mark_downloaded env) successful rows = (evs2, res)"
    by (cases "for_each_row (mark_downloaded env) successful rows")
  from assms r l m have "(Some i, ev) \<in> set evs1 \<or> (Some i, ev) \<in> set evs2"
    by (auto simp: download_def qBittorrent_download_def Let_def)
  then have "i \<in> set ?is"
  proof
    assume "(Some i, ev) \<in> set evs1"
    from download_loop_trace [OF l this] show ?thesis by simp
  next
    assume "(Some i, ev) \<in> set evs2"
    from for_each_row_trace [OF m this] have "i \<in> set successful" by simp
    with download_loop_subset [OF l] show ?thesis by blast
  qed
  then show ?thesis by (simp add: set_query)
qed

lemma upload_trace:
  assumes "selects_by_status (Upload id_option)"
    and "(Some i, ev) \<in> set (fst (upload env id_option rows))"
  shows "i < length rows \<and> status (rows ! i) = downloaded"
proof -
  let ?is = "query (\<lambda>t. status t = downloaded) rows"
  from assms(1) have sel: "upload_torrents id_option rows = ([], Inr ?is)"
    by (cases id_option) (auto simp: upload_torrents_def returns_def)
  obtain evs r where run: "for_each_row (upload_step env) ?is rows = (evs, r)"
    by (cases "for_each_row (upload_step env) ?is rows")
  with assms(2) sel have "(Some i, ev) \<in> set evs"
    by (simp add: upload_def for_batch_def)
  from for_each_row_trace [OF run this] show ?thesis by (simp add: set_query)
qed

lemma run_command_trace:
  assumes "selects_by_status c" and "(Some i, ev) \<in> set (fst (run_command env c rows))"
  shows "i < length rows \<and> status (rows ! i) = source_status c"
proof (cases c)
  case Refresh
  with assms(2) update_eligibility_trace show ?thesis by simp
next
  case (Download category)
  with assms(2) download_trace show ?thesis by simp
next
  case (Upload id_option)
  with assms upload_trace show ?thesis by simp
qed

lemma pipeline_not_backward:
  assumes "\<forall>(env, c) \<in> set runs. selects_by_status c"
  shows "length (pipeline runs rows) = length rows \<and>
         (\<forall>i < length rows. not_backward (status (rows ! i)) (status (pipeline runs rows ! i)))"
  using assms
proof (induction runs arbitrary: rows)
  case Nil
  then show ?case by (simp add: not_backward_def)
next
  case (Cons run runs)
  obtain env c where run: "run = (env, c)" by (cases run)
  with Cons.prems have c: "selects_by_status c"
    and rest: "\<forall>(env, c) \<in> set runs. selects_by_status c" by auto
  let ?rows = "table_after rows (run_command env c rows)"
  from run_command_table(1) [OF c] have len: "length ?rows = length rows" .
  from Cons.IH [OF rest, of ?rows] have
    ih_len: "length (pipeline runs ?rows) = length ?rows"
    and ih: "\<forall>i < length ?rows. not_backward (status (?rows ! i)) (status (pipeline runs ?rows ! i))"
    by blast+
  have "not_backward (status (rows ! i)) (status (pipeline runs ?rows ! i))"
    if "i < length rows" for i
  proof -
    from run_command_table(3) [OF c that] have "not_backward (status (rows ! i)) (status (?rows ! i))"
      by (rule forward_not_backward)
    moreover from ih that len have "not_backward (status (?rows ! i)) (status (pipeline runs ?rows ! i))"
      by simp
    ultimately show ?thesis by (rule not_backward_trans)
  qed
  with ih_len len run show ?case by simp
qed

text \<open>
  Claim C6, as stated: the upload step reads and moves only rows in \<open>downloaded\<close>, so
  a row in a terminal status is never touched again. With \<open>--id\<close> the command takes
  the row with that id whatever its status: here a row that is \<open>ineligible\<close> (the
  destination tracker has the release already) is uploaded and becomes \<open>uploaded\<close>.
\<close>

theorem upload_by_id_counterexample:
  "status example_duplicate = ineligible \<and>
   upload example_env (Some 12) [example_duplicate] =
     ([(None, Print ''http://jackett/dl/6001''),
       (Some 0, Http_get ''http://jackett/dl/6001''),
       (Some 0, Redacted_post ''12.torrent'' example_rewritten),
       (Some 0, Logging_info (New_torrent_created (JInt 3) (JInt 7))),
       (Some 0, Qbt_auth_log_in),
       (Some 0, Http_get ''http://jackett/dl/6001''),
       (Some 0, Qbt_torrents_add example_rewritten ''swarmchaser''),
       (Some 0, Qbt_torrents_delete ''0ed3ffd13d7861e3b9ae9671bc7150eb2785f454''),
       (Some 0, Logging_info Added_to_qbittorrent)],
      Inr [example_duplicate\<lparr>status := uploaded, last_updated := 1700000000,
             target_infohash := Some (hexdigest (sha1 example_rewritten_info))\<rparr>])"
proof -
  have sel: "upload_torrents (Some 12) [example_duplicate] =
               ([Print ''http://jackett/dl/6001''], Inr [0])"
    by code_simp
  have st: "status example_duplicate = ineligible"
    by (simp add: example_duplicate_def)
  have "upload example_env (Some 12) [example_duplicate] =
     ([(None, Print ''http://jackett/dl/6001''),
       (Some 0, Http_get ''http://jackett/dl/6001''),
       (Some 0, Redacted_post ''12.torrent'' example_rewritten),
       (Some 0, Logging_info (New_torrent_created (JInt 3) (JInt 7))),
       (Some 0, Qbt_auth_log_in),
       (Some 0, Http_get ''http://jackett/dl/6001''),
       (Some 0, Qbt_torrents_add example_rewritten ''swarmchaser''),
       (Some 0, Qbt_torrents_delete ''0ed3ffd13d7861e3b9ae9671bc7150eb2785f454''),
       (Some 0, Logging_info Added_to_qbittorrent)],
      Inr [example_duplicate\<lparr>status := uploaded, last_updated := 1700000000,
             target_infohash := Some (hexdigest (sha1 example_rewritten_info))\<rparr>])"
    unfolding upload_def sel
    by (simp add: example_upload_step_duplicate for_row_def for_batch_def)
  with st show ?thesis by simp
qed

text \<open>
  Claim C6, amended: across any sequence of runs of \<open>refresh\<close>, \<open>download\<close> and
  \<open>upload\<close> in which \<open>upload\<close> is given no id, the status of a row never moves
  backward; each command changes only rows in the status it queries (\<open>tracked\<close>,
  \<open>eligible\<close>, \<open>downloaded\<close>) and does per-row work (matching, duplicate check,
  download, upload) only for such rows, so a row already \<open>eligible\<close>, \<open>downloaded\<close>
  or in a terminal status gets no further matching or duplicate-check calls and is never
  downloaded again.
\<close>

theorem pipeline_status_forward_only:
  assumes "\<forall>(env, c) \<in> set runs. selects_by_status c"
  shows "length (pipeline runs rows) = length rows \<and>
         (\<forall>i < length rows. not_backward (status (rows ! i)) (status (pipeline runs rows ! i))) \<and>
         (\<forall>(env, c) \<in> set runs. \<forall>table i.
            (i < length table \<and> status (table ! i) \<noteq> source_status c \<longrightarrow>
               table_after table (run_command env c table) ! i = table ! i) \<and>
            (\<forall>ev. (Some i, ev) \<in> set (fst (run_command env c table)) \<longrightarrow>
               i < length table \<and> status (table ! i) = source_status c))"
proof -
  have "(i < length table \<and> status (table ! i) \<noteq> source_status c \<longrightarrow>
               table_after table (run_command env c table) ! i = table ! i) \<and>
            (\<forall>ev. (Some i, ev) \<in> set (fst (run_command env c table)) \<longrightarrow>
               i < length table \<and> status (table ! i) = source_status c)"
    if "(env, c) \<in> set runs" for env c table i
  proof -
    from assms that have c: "selects_by_status c" by auto
    from run_command_table(2) [OF c] run_command_trace [OF c] show ?thesis by blast
  qed
  with pipeline_not_backward [OF assms, of rows] show ?thesis by blast
qed

theorem pipeline_status_forward_only_witness:
  "selects_by_status Refresh \<and> selects_by_status (Download ''swarmchaser'') \<and>
   selects_by_status (Upload None) \<and>
   length (pipeline example_runs example_rows) = length example_rows \<and>
   not_backward (status (example_rows ! 0)) (status (pipeline example_runs example_rows ! 0)) \<and>
   not_backward (status (example_rows ! 1)) (status (pipeline example_runs example_rows ! 1)) \<and>
   not_backward (status (example_rows ! 2)) (status (pipeline example_runs example_rows ! 2)) \<and>
   status (example_rows ! 0) \<noteq> source_status (Download ''swarmchaser'') \<and>
   table_after example_rows (run_command example_env (Download ''swarmchaser'') example_rows) ! 0 =
     example_rows ! 0 \<and>
   (Some 0, Discogs_fetch ''Nobody - Nothing - 1999'') \<in>
     set (fst (run_command example_env Refresh example_rows)) \<and>
   status (example_rows ! 0) = source_status Refresh"
proof -
  have sel: "\<forall>(env, c) \<in> set example_runs. selects_by_status c"
    by (simp add: example_runs_def)
  note main = pipeline_status_forward_only [OF sel, of example_rows]
  have len: "0 < length example_rows" "1 < length example_rows" "2 < length example_rows"
    by (simp_all add: example_rows_def)
  have st: "status (example_rows ! 0) \<noteq> source_status (Download ''swarmchaser'')"
    by (simp add: example_rows_def example_torrent_def)
  have ev: "(Some 0, Discogs_fetch ''Nobody - Nothing - 1999'') \<in>
     set (fst (run_command example_env Refresh example_rows))"
    by (simp add: update_eligibility_example)
  have r1: "(example_env, Download ''swarmchaser'') \<in> set example_runs"
    and r0: "(example_env, Refresh) \<in> set example_runs"
    by (simp_all add: example_runs_def)
  from main have a: "length (pipeline example_runs example_rows) = length example_rows"
    and b: "\<forall>i < length example_rows.
              not_backward (status (example_rows ! i)) (status (pipeline example_runs example_rows ! i))"
    and c: "\<forall>(env, c) \<in> set example_runs. \<forall>table i.
            (i < length table \<and> status (table ! i) \<noteq> source_status c \<longrightarrow>
               table_after table (run_command env c table) ! i = table ! i) \<and>
            (\<forall>ev. (Some i, ev) \<in> set (fst (run_command env c table)) \<longrightarrow>
               i < length table \<and> status (table ! i) = source_status c)"
    by blast+
  from c r1 len(1) st have frame:
    "table_after example_rows (run_command example_env (Download ''swarmchaser'') example_rows) ! 0 =
     example_rows ! 0" by blast
  from c r0 ev have src: "status (example_rows ! 0) = source_status Refresh" by blast
  from b len have nb:
    "not_backward (status (example_rows ! 0)) (status (pipeline example_runs example_rows ! 0))"
    "not_backward (status (example_rows ! 1)) (status (pipeline example_runs example_rows ! 1))"
    "not_backward (status (example_rows ! 2)) (status (pipeline example_runs example_rows ! 2))"
    by blast+
  have s: "selects_by_status Refresh" "selects_by_status (Download ''swarmchaser'')"
    "selects_by_status (Upload None)"
    by simp_all
  show ?thesis
    using s a nb st frame ev src by - (intro conjI; assumption)
qed

section \<open>The infohash\<close>










section \<open>The order of the keys in the encoded output\<close>















end
